theory Spec2Isabelle
  imports Complex_Main "HOL-Library.Word"
begin

section \<open>Values shared by all packages\<close>

text \<open>
  A Go \<^verbatim>\<open>error\<close> is a value. \<open>Wrapped p e\<close> stands for \<^verbatim>\<open>fmt.Errorf(p + ": %w", e)\<close>,
  \<open>Joined p es\<close> for \<^verbatim>\<open>fmt.Errorf(p + ": %v", es)\<close> on a slice of errors, \<open>ErrNotExist\<close> for
  the errors that \<^verbatim>\<open>os.IsNotExist\<close> accepts and \<open>Err s\<close> for every other error with text
  \<open>s\<close>. A nil error is \<open>None\<close>.
\<close>

datatype err = ErrNotExist | Err string | Wrapped string err | Joined string "err list"

fun os_IsNotExist :: "err \<Rightarrow> bool" where
  "os_IsNotExist ErrNotExist = True"
| "os_IsNotExist _ = False"

text \<open>
  A function of the program either returns or panics (a write into a nil map, a nil
  pointer dereference).
\<close>

datatype 'a exec = Panics | Returns 'a

text \<open>
  A \<^verbatim>\<open>time.Time\<close> is the instant it denotes, in nanoseconds since the Unix epoch. A
  \<^verbatim>\<open>time.Duration\<close> is a signed 64-bit count of nanoseconds: \<^verbatim>\<open>t.Sub(u)\<close> saturates at
  the two ends of that range and the product of two durations wraps around.
\<close>

type_synonym Time = int
type_synonym Duration = int

definition maxDuration :: Duration where
  "maxDuration = 2 ^ 63 - 1"

definition minDuration :: Duration where
  "minDuration = - (2 ^ 63)"

definition time_Hour :: Duration where
  "time_Hour = 3600000000000"

definition time_Sub :: "Time \<Rightarrow> Time \<Rightarrow> Duration" where
  "time_Sub t u =
     (let d = t - u
      in if maxDuration < d then maxDuration
         else if d < minDuration then minDuration
         else d)"

definition Duration_mul :: "Duration \<Rightarrow> Duration \<Rightarrow> Duration" where
  "Duration_mul a b = sint ((word_of_int a :: 64 word) * word_of_int b)"

text \<open>\<^verbatim>\<open>time.Time{}\<close>, the zero time: 1 January of year 1, 00:00 UTC.\<close>

definition zeroTime :: Time where
  "zeroTime = - 62135596800 * 1000000000"

section \<open>Package config\<close>

record DomainConfig =
  Host :: string
  Port :: int
  Name :: string
  InsecureSkipVerify :: bool

text \<open>
  The notification of package notifier, the unit handed to every channel. Its
  \<^verbatim>\<open>DaysRemaining\<close> is a \<^verbatim>\<open>float64\<close>, always finite in this program, modelled by the
  real number it denotes.
\<close>

record Notification =
  Domain :: DomainConfig
  DaysRemaining :: real
  Expiry :: Time
  Threshold :: int

section \<open>Package state: the cooldown store\<close>

text \<open>
  \<^verbatim>\<open>map[string]map[int]time.Time\<close>: a Go map value is either nil or a map; reading a nil
  map finds no key, writing into it panics. \<open>None\<close> is the nil map.
\<close>

type_synonym ThresholdMap = "(int \<rightharpoonup> Time) option"

record State =
  Entries :: "(string \<rightharpoonup> ThresholdMap) option"

definition map_index :: "('k \<rightharpoonup> 'v) option \<Rightarrow> 'k \<Rightarrow> 'v option" where
  "map_index m k = (case m of None \<Rightarrow> None | Some f \<Rightarrow> f k)"

record Manager =
  filePath :: string
  cooldownHours :: int
  state :: State

text \<open>
  Everything outside the process. \<open>files\<close> maps a path, as the program spells it, to the
  content of the file; \<open>now\<close> is the reading of the clock; \<open>mkdir_err\<close>, \<open>write_err\<close>
  and \<open>read_err\<close> say for which paths the operating system refuses the operation, and
  with which error; \<open>ctx_Err\<close> is what \<^verbatim>\<open>ctx.Err()\<close> returns, nil until the run is
  cancelled; \<open>delivered\<close> lists the requests that reached the endpoint of a channel, with
  the name of the channel. A refused write leaves the file as it was. The content of a
  file has the type \<open>'b\<close>.
\<close>

record 'b world =
  files :: "string \<rightharpoonup> 'b"
  now :: Time
  mkdir_err :: "string \<Rightarrow> err option"
  write_err :: "string \<Rightarrow> err option"
  read_err :: "string \<Rightarrow> err option"
  ctx_Err :: "err option"
  delivered :: "(string \<times> Notification) list"

definition os_ReadFile :: "'b world \<Rightarrow> string \<Rightarrow> err + 'b" where
  "os_ReadFile w p =
     (case read_err w p of
        Some e \<Rightarrow> Inl e
      | None \<Rightarrow> (case files w p of None \<Rightarrow> Inl ErrNotExist | Some d \<Rightarrow> Inr d))"

definition os_WriteFile :: "'b world \<Rightarrow> string \<Rightarrow> 'b \<Rightarrow> err option \<times> 'b world" where
  "os_WriteFile w p d =
     (case write_err w p of
        Some e \<Rightarrow> (Some e, w)
      | None \<Rightarrow> (None, w\<lparr>files := (files w)(p \<mapsto> d)\<rparr>))"

definition os_MkdirAll :: "'b world \<Rightarrow> string \<Rightarrow> err option" where
  "os_MkdirAll w dir = mkdir_err w dir"

definition time_Since :: "'b world \<Rightarrow> Time \<Rightarrow> Duration" where
  "time_Since w t = time_Sub (now w) t"

text \<open>
  The functions of the Go library that the store calls are parameters:
  \<^verbatim>\<open>filepath.Dir\<close>, \<^verbatim>\<open>filepath.Base\<close>, \<^verbatim>\<open>json.MarshalIndent(state, "", "  ")\<close> and
  \<^verbatim>\<open>json.Unmarshal(data, &m.state)\<close>. The last one is given the state that the pointer
  holds and returns the error together with the pointer's new target, \<open>None\<close> when it
  set the pointer to nil.
\<close>

record 'b lib =
  filepath_Dir :: "string \<Rightarrow> string"
  filepath_Base :: "string \<Rightarrow> string"
  json_MarshalIndent :: "State \<Rightarrow> err + 'b"
  json_Unmarshal :: "'b \<Rightarrow> State \<Rightarrow> err option \<times> State option"

definition fallbackName :: string where
  "fallbackName = ''ssl-monitor-state.json''"

text \<open>
  The loop of \<^verbatim>\<open>load\<close> that replaces every nil inner map by an empty one.
\<close>

definition ensure_nested :: "State \<Rightarrow> State" where
  "ensure_nested st =
     (case Entries st of
        None \<Rightarrow> st
      | Some es \<Rightarrow>
          st\<lparr>Entries := Some (\<lambda>domain.
              case es domain of
                None \<Rightarrow> None
              | Some None \<Rightarrow> Some (Some Map.empty)
              | Some (Some thresholds) \<Rightarrow> Some (Some thresholds))\<rparr>)"

text \<open>
  \<^verbatim>\<open>load\<close> returns the error, or the manager with the state it read. When it returns an
  error its only caller, \<^verbatim>\<open>NewManager\<close>, drops the manager. After a decoding that leaves
  \<^verbatim>\<open>m.state\<close> nil the loop dereferences the nil pointer.
\<close>

definition state_load :: "'b lib \<Rightarrow> Manager \<Rightarrow> 'b world \<Rightarrow> (err + Manager) exec" where
  "state_load L m w =
     (if filePath m = [] then Returns (Inr m)
      else
        (case os_ReadFile w (filePath m) of
           Inl e \<Rightarrow>
             if os_IsNotExist e then Returns (Inr m)
             else Returns (Inl (Wrapped ''failed to read state file'' e))
         | Inr data \<Rightarrow>
             (case json_Unmarshal L data (state m) of
                (Some e, _) \<Rightarrow> Returns (Inl (Wrapped ''failed to unmarshal state'' e))
              | (None, None) \<Rightarrow> Panics
              | (None, Some st) \<Rightarrow> Returns (Inr (m\<lparr>state := ensure_nested st\<rparr>)))))"

definition state_NewManager ::
  "'b lib \<Rightarrow> string \<Rightarrow> int \<Rightarrow> 'b world \<Rightarrow> (err + Manager) exec" where
  "state_NewManager L path hours w =
     (let m = \<lparr>filePath = path, cooldownHours = hours,
                state = \<lparr>Entries = Some Map.empty\<rparr>\<rparr>
      in case state_load L m w of
           Panics \<Rightarrow> Panics
         | Returns (Inl e) \<Rightarrow> Returns (Inl (Wrapped ''failed to load state'' e))
         | Returns (Inr m') \<Rightarrow> Returns (Inr m'))"

definition state_save :: "'b lib \<Rightarrow> Manager \<Rightarrow> 'b world \<Rightarrow> err option \<times> Manager \<times> 'b world" where
  "state_save L m w =
     (if filePath m = [] then (None, m, w)
      else
        let dir = filepath_Dir L (filePath m);
            m1 = (if dir \<noteq> [] \<and> dir \<noteq> ''.'' then
                    (case os_MkdirAll w dir of
                       Some e \<Rightarrow>
                         let fallbackFile = filepath_Base L (filePath m)
                         in m\<lparr>filePath :=
                               (if fallbackFile = [] then fallbackName else fallbackFile)\<rparr>
                     | None \<Rightarrow> m)
                  else m)
        in case json_MarshalIndent L (state m1) of
             Inl e \<Rightarrow> (Some (Wrapped ''failed to marshal state'' e), m1, w)
           | Inr data \<Rightarrow>
               (case os_WriteFile w (filePath m1) data of
                  (None, w1) \<Rightarrow> (None, m1, w1)
                | (Some e, w1) \<Rightarrow>
                    (case os_WriteFile w1 fallbackName data of
                       (Some e2, w2) \<Rightarrow>
                         (Some (Wrapped ''failed to write state file'' e2), m1, w2)
                     | (None, w2) \<Rightarrow> (None, m1\<lparr>filePath := fallbackName\<rparr>, w2))))"

definition ShouldSend :: "Manager \<Rightarrow> 'b world \<Rightarrow> string \<Rightarrow> int \<Rightarrow> bool" where
  "ShouldSend m w domain threshold =
     (case map_index (Entries (state m)) domain of
        None \<Rightarrow> True
      | Some domainMap \<Rightarrow>
          (case map_index domainMap threshold of
             None \<Rightarrow> True
           | Some lastSent \<Rightarrow>
               Duration_mul (cooldownHours m) time_Hour < time_Since w lastSent))"

text \<open>
  \<^verbatim>\<open>MarkSent\<close> writes into the outer map when the domain has no inner map, then into the
  inner map of the domain; either write panics on a nil map.
\<close>

definition MarkSent ::
  "'b lib \<Rightarrow> Manager \<Rightarrow> 'b world \<Rightarrow> string \<Rightarrow> int \<Rightarrow> (err option \<times> Manager \<times> 'b world) exec" where
  "MarkSent L m w domain threshold =
     (case Entries (state m) of
        None \<Rightarrow> Panics
      | Some es \<Rightarrow>
          let es1 = (if es domain = None then es(domain \<mapsto> Some Map.empty) else es)
          in (case es1 domain of
                None \<Rightarrow> Panics
              | Some None \<Rightarrow> Panics
              | Some (Some thresholds) \<Rightarrow>
                  Returns (state_save L
                    (m\<lparr>state := (state m)\<lparr>Entries :=
                         Some (es1(domain \<mapsto> Some (thresholds(threshold \<mapsto> now w))))\<rparr>\<rparr>) w)))"

definition Clear :: "'b lib \<Rightarrow> Manager \<Rightarrow> 'b world \<Rightarrow> err option \<times> Manager \<times> 'b world" where
  "Clear L m w = state_save L (m\<lparr>state := (state m)\<lparr>Entries := Some Map.empty\<rparr>\<rparr>) w"

definition GetLastSent :: "Manager \<Rightarrow> string \<Rightarrow> int \<Rightarrow> Time \<times> bool" where
  "GetLastSent m domain threshold =
     (case map_index (Entries (state m)) domain of
        None \<Rightarrow> (zeroTime, False)
      | Some domainMap \<Rightarrow>
          (case map_index domainMap threshold of
             None \<Rightarrow> (zeroTime, False)
           | Some lastSent \<Rightarrow> (lastSent, True)))"

section \<open>Package notifier: the dispatcher\<close>

text \<open>
  The interface \<^verbatim>\<open>Notifier\<close>: a name and a \<^verbatim>\<open>Send\<close>, which acts on the world outside
  the process and returns an error or nil.
\<close>

record 'b Notifier =
  Notifier_Name :: string
  Notifier_Send :: "Notification \<Rightarrow> 'b world \<Rightarrow> err option \<times> 'b world"

record 'b notifier_Manager =
  notifiers :: "'b Notifier list"

definition notifier_NewManager :: "'b Notifier list \<Rightarrow> 'b notifier_Manager" where
  "notifier_NewManager ns = \<lparr>notifiers = ns\<rparr>"

text \<open>The loop of \<^verbatim>\<open>Manager.Send\<close>, with the slice \<^verbatim>\<open>errs\<close> as accumulator.\<close>

fun send_loop ::
  "'b Notifier list \<Rightarrow> Notification \<Rightarrow> 'b world \<Rightarrow> err list \<Rightarrow> err list \<times> 'b world" where
  "send_loop [] n w errs = (errs, w)"
| "send_loop (c # cs) n w errs =
     (case Notifier_Send c n w of
        (Some e, w1) \<Rightarrow> send_loop cs n w1 (errs @ [Wrapped (Notifier_Name c) e])
      | (None, w1) \<Rightarrow> send_loop cs n w1 errs)"

definition Manager_Send ::
  "'b notifier_Manager \<Rightarrow> Notification \<Rightarrow> 'b world \<Rightarrow> err option \<times> 'b world" where
  "Manager_Send M n w =
     (case send_loop (notifiers M) n w [] of
        (errs, w1) \<Rightarrow>
          if 0 < length errs then (Some (Joined ''failed to send notifications'' errs), w1)
          else (None, w1))"

subsection \<open>Channel configuration and \<^verbatim>\<open>BuildNotifiers\<close>\<close>

record SlackConfig =
  Slack_Enabled :: bool
  Slack_WebhookURL :: string
  Slack_Channel :: string
  Slack_Username :: string
  Slack_IconEmoji :: string

record EmailConfig =
  Email_Enabled :: bool
  Email_SMTPHost :: string
  Email_SMTPPort :: int
  Email_Username :: string
  Email_Password :: string
  Email_From :: string
  Email_To :: string
  Email_UseTLS :: bool

record WebhookConfig =
  Webhook_Enabled :: bool
  Webhook_URL :: string
  Webhook_Method :: string
  Webhook_Headers :: "(string \<rightharpoonup> string) option"
  Webhook_BodyTemplate :: string

record DiscordConfig =
  Discord_Enabled :: bool
  Discord_WebhookURL :: string
  Discord_Username :: string
  Discord_AvatarURL :: string

record NotificationsConfig =
  Slack :: SlackConfig
  Email :: EmailConfig
  Webhook :: WebhookConfig
  Discord :: DiscordConfig

text \<open>
  What each channel does on the network, and the parsing of the webhook's body
  template, are parameters.
\<close>

record 'b transports =
  slack_post :: "SlackConfig \<Rightarrow> Notification \<Rightarrow> 'b world \<Rightarrow> err option \<times> 'b world"
  email_submit :: "EmailConfig \<Rightarrow> Notification \<Rightarrow> 'b world \<Rightarrow> err option \<times> 'b world"
  webhook_request :: "WebhookConfig \<Rightarrow> Notification \<Rightarrow> 'b world \<Rightarrow> err option \<times> 'b world"
  discord_post :: "DiscordConfig \<Rightarrow> Notification \<Rightarrow> 'b world \<Rightarrow> err option \<times> 'b world"
  template_Parse :: "string \<Rightarrow> err option"

definition NewSlackNotifier :: "'b transports \<Rightarrow> SlackConfig \<Rightarrow> err + 'b Notifier" where
  "NewSlackNotifier T cfg =
     (if Slack_WebhookURL cfg = [] then Inl (Err ''webhook URL is required'')
      else Inr \<lparr>Notifier_Name = ''Slack'', Notifier_Send = slack_post T cfg\<rparr>)"

definition NewEmailNotifier :: "'b transports \<Rightarrow> EmailConfig \<Rightarrow> err + 'b Notifier" where
  "NewEmailNotifier T cfg =
     (if Email_SMTPHost cfg = [] then Inl (Err ''SMTP host is required'')
      else if Email_From cfg = [] then Inl (Err ''from address is required'')
      else if Email_To cfg = [] then Inl (Err ''to address is required'')
      else Inr \<lparr>Notifier_Name = ''Email'', Notifier_Send = email_submit T cfg\<rparr>)"

definition NewWebhookNotifier :: "'b transports \<Rightarrow> WebhookConfig \<Rightarrow> err + 'b Notifier" where
  "NewWebhookNotifier T cfg0 =
     (if Webhook_URL cfg0 = [] then Inl (Err ''webhook URL is required'')
      else
        let cfg = (if Webhook_Method cfg0 = [] then cfg0\<lparr>Webhook_Method := ''POST''\<rparr> else cfg0)
        in case (if Webhook_BodyTemplate cfg \<noteq> [] then template_Parse T (Webhook_BodyTemplate cfg)
                 else None) of
             Some e \<Rightarrow> Inl (Wrapped ''failed to parse body template'' e)
           | None \<Rightarrow> Inr \<lparr>Notifier_Name = ''Webhook'', Notifier_Send = webhook_request T cfg\<rparr>)"

definition NewDiscordNotifier :: "'b transports \<Rightarrow> DiscordConfig \<Rightarrow> err + 'b Notifier" where
  "NewDiscordNotifier T cfg =
     (if Discord_WebhookURL cfg = [] then Inl (Err ''webhook URL is required'')
      else Inr \<lparr>Notifier_Name = ''Discord'', Notifier_Send = discord_post T cfg\<rparr>)"

definition BuildNotifiers ::
  "'b transports \<Rightarrow> NotificationsConfig \<Rightarrow> err + 'b notifier_Manager" where
  "BuildNotifiers T cfg =
     (case (if Slack_Enabled (Slack cfg) then
              (case NewSlackNotifier T (Slack cfg) of
                 Inl e \<Rightarrow> Inl (Wrapped ''failed to create Slack notifier'' e)
               | Inr slack \<Rightarrow> Inr [slack])
            else Inr []) of
        Inl e \<Rightarrow> Inl e
      | Inr ns1 \<Rightarrow>
     (case (if Email_Enabled (Email cfg) then
              (case NewEmailNotifier T (Email cfg) of
                 Inl e \<Rightarrow> Inl (Wrapped ''failed to create email notifier'' e)
               | Inr email \<Rightarrow> Inr (ns1 @ [email]))
            else Inr ns1) of
        Inl e \<Rightarrow> Inl e
      | Inr ns2 \<Rightarrow>
     (case (if Webhook_Enabled (Webhook cfg) then
              (case NewWebhookNotifier T (Webhook cfg) of
                 Inl e \<Rightarrow> Inl (Wrapped ''failed to create webhook notifier'' e)
               | Inr webhook \<Rightarrow> Inr (ns2 @ [webhook]))
            else Inr ns2) of
        Inl e \<Rightarrow> Inl e
      | Inr ns3 \<Rightarrow>
     (case (if Discord_Enabled (Discord cfg) then
              (case NewDiscordNotifier T (Discord cfg) of
                 Inl e \<Rightarrow> Inl (Wrapped ''failed to create Discord notifier'' e)
               | Inr discord \<Rightarrow> Inr (ns3 @ [discord]))
            else Inr ns3) of
        Inl e \<Rightarrow> Inl e
      | Inr ns4 \<Rightarrow> Inr (notifier_NewManager ns4)))))"

section \<open>Package engine\<close>

record StateConfig =
  State_File :: string
  State_CooldownHours :: int

record Config =
  Domains :: "DomainConfig list"
  ReminderDays :: "int list"
  Notifications :: NotificationsConfig
  State_Config :: StateConfig

text \<open>
  \<^verbatim>\<open>DaysRemaining\<close> is a \<^verbatim>\<open>float64\<close>; the prober computes it by a division of a finite
  number of hours by 24, so it is a finite value, modelled by the real number it denotes.
  \<^verbatim>\<open>float64(threshold)\<close> is the integer itself (exact below \<open>2 ^ 53\<close> days).
\<close>

record CheckResult =
  Result_Domain :: DomainConfig
  Success :: bool
  Error :: "err option"
  Result_Expiry :: Time
  Result_DaysRemaining :: real

text \<open>
  What a run leaves behind, in order: the records handed to the logger (level, message,
  attributes) and the calls made to the cooldown store and to the dispatcher. A time
  attribute carries the layout it is formatted with.
\<close>

datatype level = LevelDebug | LevelInfo | LevelWarn | LevelError

datatype attr =
  AStr string | AInt int | AFloat real | ATime string Time | AErr "err option"

datatype event =
  Log level string "(string \<times> attr) list"
| Call_ShouldSend string int bool
| Call_Send Notification "err option"
| Call_MarkSent string int

text \<open>
  The engine's fields that a run does not change: the configuration, the prober and the
  dispatcher. The cooldown store is passed along with the world.
\<close>

record 'b Engine =
  config :: Config
  CheckDomain :: "DomainConfig \<Rightarrow> 'b world \<Rightarrow> CheckResult \<times> 'b world"
  notifier :: "'b notifier_Manager"

definition NewEngine ::
  "'b lib \<Rightarrow> 'b transports \<Rightarrow> (DomainConfig \<Rightarrow> 'b world \<Rightarrow> CheckResult \<times> 'b world) \<Rightarrow>
   Config \<Rightarrow> 'b world \<Rightarrow> (err + 'b Engine \<times> Manager) exec" where
  "NewEngine L T chk cfg w =
     (case state_NewManager L (State_File (State_Config cfg))
             (State_CooldownHours (State_Config cfg)) w of
        Panics \<Rightarrow> Panics
      | Returns (Inl e) \<Rightarrow> Returns (Inl (Wrapped ''failed to create state manager'' e))
      | Returns (Inr stateManager) \<Rightarrow>
          (case BuildNotifiers T (Notifications cfg) of
             Inl e \<Rightarrow> Returns (Inl (Wrapped ''failed to build notifiers'' e))
           | Inr notifierManager \<Rightarrow>
               Returns (Inr (\<lparr>config = cfg, CheckDomain = chk, notifier = notifierManager\<rparr>,
                             stateManager))))"

definition domainName_of :: "DomainConfig \<Rightarrow> string" where
  "domainName_of domain = (if Name domain = [] then Host domain else Name domain)"

text \<open>
  One iteration of the loop of \<^verbatim>\<open>checkThresholds\<close> over \<^verbatim>\<open>ReminderDays\<close>. The state is
  the counter \<^verbatim>\<open>notificationsSent\<close>, the cooldown store and the world.
\<close>

definition threshold_body ::
  "'b lib \<Rightarrow> 'b Engine \<Rightarrow> DomainConfig \<Rightarrow> CheckResult \<Rightarrow> int \<Rightarrow>
   int \<times> Manager \<times> 'b world \<Rightarrow> event list \<times> (int \<times> Manager \<times> 'b world) exec" where
  "threshold_body L e domain result threshold st =
     (case st of (notificationsSent, m, w) \<Rightarrow>
      if Result_DaysRemaining result \<le> real_of_int threshold \<and> 0 < Result_DaysRemaining result
      then
        if ShouldSend m w (Host domain) threshold then
          let sending =
                [Call_ShouldSend (Host domain) threshold True,
                 Log LevelInfo ''Sending notification''
                   [(''domain'', AStr (domainName_of domain)),
                    (''days_remaining'', AFloat (Result_DaysRemaining result)),
                    (''threshold'', AInt threshold)]];
              notification =
                \<lparr>Domain = domain, DaysRemaining = Result_DaysRemaining result,
                 Expiry = Result_Expiry result, Threshold = threshold\<rparr>
          in (case Manager_Send (notifier e) notification w of
                (Some err, w1) \<Rightarrow>
                  (sending @
                   [Call_Send notification (Some err),
                    Log LevelError ''Failed to send notification''
                      [(''domain'', AStr (domainName_of domain)),
                       (''threshold'', AInt threshold),
                       (''error'', AErr (Some err))]],
                   Returns (notificationsSent, m, w1))
              | (None, w1) \<Rightarrow>
                  (case MarkSent L m w1 (Host domain) threshold of
                     Panics \<Rightarrow>
                       (sending @
                        [Call_Send notification None, Call_MarkSent (Host domain) threshold],
                        Panics)
                   | Returns (Some err, m2, w2) \<Rightarrow>
                       (sending @
                        [Call_Send notification None, Call_MarkSent (Host domain) threshold,
                         Log LevelError ''Failed to update state''
                           [(''domain'', AStr (domainName_of domain)),
                            (''error'', AErr (Some err))]],
                        Returns (notificationsSent, m2, w2))
                   | Returns (None, m2, w2) \<Rightarrow>
                       (sending @
                        [Call_Send notification None, Call_MarkSent (Host domain) threshold],
                        Returns (notificationsSent + 1, m2, w2))))
        else
          (case GetLastSent m (Host domain) threshold of
             (lastSent, _) \<Rightarrow>
               ([Call_ShouldSend (Host domain) threshold False,
                 Log LevelDebug ''Skipping notification due to cooldown''
                   [(''domain'', AStr (domainName_of domain)),
                    (''threshold'', AInt threshold),
                    (''last_sent'', ATime ''RFC3339'' lastSent)]],
                Returns (notificationsSent, m, w)))
      else ([], Returns (notificationsSent, m, w)))"

fun thresholds_loop ::
  "'b lib \<Rightarrow> 'b Engine \<Rightarrow> DomainConfig \<Rightarrow> CheckResult \<Rightarrow> int list \<Rightarrow>
   int \<times> Manager \<times> 'b world \<Rightarrow> event list \<times> (int \<times> Manager \<times> 'b world) exec" where
  "thresholds_loop L e domain result [] st = ([], Returns st)"
| "thresholds_loop L e domain result (threshold # rest) st =
     (case threshold_body L e domain result threshold st of
        (evs, Panics) \<Rightarrow> (evs, Panics)
      | (evs, Returns st1) \<Rightarrow>
          (case thresholds_loop L e domain result rest st1 of
             (evs2, r) \<Rightarrow> (evs @ evs2, r)))"

definition checkThresholds ::
  "'b lib \<Rightarrow> 'b Engine \<Rightarrow> DomainConfig \<Rightarrow> CheckResult \<Rightarrow> Manager \<Rightarrow> 'b world \<Rightarrow>
   event list \<times> (int \<times> Manager \<times> 'b world) exec" where
  "checkThresholds L e domain result m w =
     (case thresholds_loop L e domain result (ReminderDays (config e)) (0, m, w) of
        (evs, Panics) \<Rightarrow> (evs, Panics)
      | (evs, Returns st) \<Rightarrow>
          (evs @
           (if Result_DaysRemaining result \<le> 0 then
              [Log LevelError ''Certificate has expired!''
                 [(''domain'', AStr (domainName_of domain)),
                  (''days_remaining'', AFloat (Result_DaysRemaining result)),
                  (''expiry'', ATime ''2006-01-02'' (Result_Expiry result))]]
            else []),
           Returns st))"

text \<open>
  \<^verbatim>\<open>Run\<close>: the loop over the configured domains. The state is the three totals
  (checked, errors, notifications), the cooldown store and the world; the result is the
  error that \<^verbatim>\<open>Run\<close> returns together with that state.
\<close>

type_synonym 'b run_state = "(int \<times> int \<times> int) \<times> Manager \<times> 'b world"

fun domains_loop ::
  "'b lib \<Rightarrow> 'b Engine \<Rightarrow> DomainConfig list \<Rightarrow> 'b run_state \<Rightarrow>
   event list \<times> (err option \<times> 'b run_state) exec" where
  "domains_loop L e [] st = ([], Returns (None, st))"
| "domains_loop L e (domain # rest) ((totalChecked, totalErrors, totalNotifications), m, w) =
     (if ctx_Err w \<noteq> None then
        ([], Returns (ctx_Err w, (totalChecked, totalErrors, totalNotifications), m, w))
      else
        let checking =
              [Log LevelDebug ''Checking domain''
                 [(''domain'', AStr (domainName_of domain)), (''host'', AStr (Host domain)),
                  (''port'', AInt (Port domain))]]
        in (case CheckDomain e domain w of
              (result, w1) \<Rightarrow>
                if \<not> Success result then
                  (case domains_loop L e rest
                          ((totalChecked + 1, totalErrors + 1, totalNotifications), m, w1) of
                     (evs2, r) \<Rightarrow>
                       (checking @
                        [Log LevelWarn ''Failed to check domain''
                           [(''domain'', AStr (domainName_of domain)),
                            (''error'', AErr (Error result))]] @ evs2, r))
                else
                  let checked =
                        [Log LevelInfo ''Certificate check successful''
                           [(''domain'', AStr (domainName_of domain)),
                            (''days_remaining'', AFloat (Result_DaysRemaining result)),
                            (''expiry'', ATime ''2006-01-02'' (Result_Expiry result))]]
                  in (case checkThresholds L e domain result m w1 of
                        (evs1, Panics) \<Rightarrow> (checking @ checked @ evs1, Panics)
                      | (evs1, Returns (notificationsSent, m2, w2)) \<Rightarrow>
                          (case domains_loop L e rest
                                  ((totalChecked + 1, totalErrors,
                                    totalNotifications + notificationsSent), m2, w2) of
                             (evs2, r) \<Rightarrow> (checking @ checked @ evs1 @ evs2, r)))))"

definition Run ::
  "'b lib \<Rightarrow> 'b Engine \<Rightarrow> Manager \<Rightarrow> 'b world \<Rightarrow>
   event list \<times> (err option \<times> 'b run_state) exec" where
  "Run L e m w =
     (case domains_loop L e (Domains (config e)) ((0, 0, 0), m, w) of
        (evs, Panics) \<Rightarrow>
          (Log LevelInfo ''Starting SSL certificate monitoring''
             [(''domains'', AInt (int (length (Domains (config e)))))] # evs, Panics)
      | (evs, Returns (Some err, st)) \<Rightarrow>
          (Log LevelInfo ''Starting SSL certificate monitoring''
             [(''domains'', AInt (int (length (Domains (config e)))))] # evs,
           Returns (Some err, st))
      | (evs, Returns (None, (totalChecked, totalErrors, totalNotifications), m1, w1)) \<Rightarrow>
          (Log LevelInfo ''Starting SSL certificate monitoring''
             [(''domains'', AInt (int (length (Domains (config e)))))] # evs @
           [Log LevelInfo ''Monitoring completed''
              [(''domains_checked'', AInt totalChecked), (''errors'', AInt totalErrors),
               (''notifications_sent'', AInt totalNotifications)]],
           Returns (None, (totalChecked, totalErrors, totalNotifications), m1, w1)))"

section \<open>Notions used to state the properties\<close>

text \<open>The last-sent timestamp that the store holds for a pair, if it holds one.\<close>

definition lastSent_of :: "Manager \<Rightarrow> string \<Rightarrow> int \<Rightarrow> Time option" where
  "lastSent_of m domain threshold =
     (case map_index (Entries (state m)) domain of
        None \<Rightarrow> None
      | Some domainMap \<Rightarrow> map_index domainMap threshold)"

text \<open>The pairs for which the store holds an entry.\<close>

definition pairs :: "Manager \<Rightarrow> (string \<times> int) set" where
  "pairs m = {(domain, threshold). lastSent_of m domain threshold \<noteq> None}"

text \<open>
  The invariant of a store that \<^verbatim>\<open>MarkSent\<close> can write into: the outer map and every
  inner map are allocated.
\<close>

definition allocated :: "Manager \<Rightarrow> bool" where
  "allocated m =
     (case Entries (state m) of
        None \<Rightarrow> False
      | Some es \<Rightarrow> (\<forall>domain. es domain \<noteq> Some None))"

text \<open>
  The path that \<^verbatim>\<open>save\<close> holds after its directory step: the configured path, or its base
  name when the directory could not be created.
\<close>

definition redirected :: "'b lib \<Rightarrow> Manager \<Rightarrow> 'b world \<Rightarrow> string" where
  "redirected L m w =
     (let dir = filepath_Dir L (filePath m)
      in if dir \<noteq> [] \<and> dir \<noteq> ''.'' \<and> os_MkdirAll w dir \<noteq> None then
           (if filepath_Base L (filePath m) = [] then fallbackName
            else filepath_Base L (filePath m))
         else filePath m)"

text \<open>
  The dispatcher as its contract words it: every channel is invoked once with the
  notification, in the order of the list, each on the world its predecessors left; the
  outcome of each is kept with the channel's name.
\<close>

fun channel_outcomes ::
  "'b Notifier list \<Rightarrow> Notification \<Rightarrow> 'b world \<Rightarrow> (string \<times> err option) list \<times> 'b world" where
  "channel_outcomes [] n w = ([], w)"
| "channel_outcomes (c # cs) n w =
     (case Notifier_Send c n w of
        (r, w1) \<Rightarrow>
          (case channel_outcomes cs n w1 of
             (rs, w2) \<Rightarrow> ((Notifier_Name c, r) # rs, w2)))"

fun failures :: "(string \<times> err option) list \<Rightarrow> err list" where
  "failures [] = []"
| "failures ((name, None) # rs) = failures rs"
| "failures ((name, Some e) # rs) = Wrapped name e # failures rs"

fun all_succeeded :: "(string \<times> err option) list \<Rightarrow> bool" where
  "all_succeeded [] = True"
| "all_succeeded ((name, r) # rs) = (r = None \<and> all_succeeded rs)"

text \<open>A threshold is crossed by a number of days remaining.\<close>

definition crossed :: "real \<Rightarrow> int \<Rightarrow> bool" where
  "crossed days threshold = (0 < days \<and> days \<le> real_of_int threshold)"

text \<open>
  What a list of events says: the thresholds for which the store was consulted, the
  notifications dispatched with the aggregate outcome of each, and the pairs marked.
\<close>

fun consulted :: "event list \<Rightarrow> (string \<times> int) list" where
  "consulted [] = []"
| "consulted (Call_ShouldSend d t b # evs) = (d, t) # consulted evs"
| "consulted (ev # evs) = consulted evs"

fun sends :: "event list \<Rightarrow> (Notification \<times> err option) list" where
  "sends [] = []"
| "sends (Call_Send n r # evs) = (n, r) # sends evs"
| "sends (ev # evs) = sends evs"

fun marks :: "event list \<Rightarrow> (string \<times> int) list" where
  "marks [] = []"
| "marks (Call_MarkSent d t # evs) = (d, t) # marks evs"
| "marks (ev # evs) = marks evs"

fun marked_by :: "(Notification \<times> err option) list \<Rightarrow> (string \<times> int) list" where
  "marked_by [] = []"
| "marked_by ((n, None) # xs) = (Host (Domain n), Threshold n) # marked_by xs"
| "marked_by ((n, Some e) # xs) = marked_by xs"

subsection \<open>Sample values\<close>

text \<open>
  A library and a world to instantiate the statements with. The content of a file is
  \<open>Some st\<close>, the encoding of the state \<open>st\<close>, or \<open>None\<close>, a text that is not JSON.
\<close>

text \<open>
  \<^verbatim>\<open>filepath.Clean\<close>, \<^verbatim>\<open>filepath.Dir\<close> and \<^verbatim>\<open>filepath.Base\<close> for paths with the separator
  \<open>/\<close> and no volume name: \<open>Clean\<close> drops empty and \<open>.\<close> elements, resolves \<open>..\<close>
  against the element before it (or drops it at the root) and gives \<open>.\<close> for the empty
  path; \<open>Dir\<close> cleans the path up to its last separator; \<open>Base\<close> is the last element
  after the trailing separators are stripped, \<open>.\<close> for the empty path and \<open>/\<close> for a path
  of separators only.
\<close>

fun split_on :: "char \<Rightarrow> string \<Rightarrow> string list" where
  "split_on c [] = [[]]"
| "split_on c (x # xs) =
     (if x = c then [] # split_on c xs
      else (case split_on c xs of
              [] \<Rightarrow> [[x]]
            | y # ys \<Rightarrow> (x # y) # ys))"

fun clean_elems :: "bool \<Rightarrow> string list \<Rightarrow> string list \<Rightarrow> string list" where
  "clean_elems rooted [] acc = rev acc"
| "clean_elems rooted (x # xs) acc =
     (if x = [] \<or> x = ''.'' then clean_elems rooted xs acc
      else if x = ''..'' then
        (case acc of
           [] \<Rightarrow> clean_elems rooted xs (if rooted then [] else [''..''])
         | a # as \<Rightarrow>
             if a = ''..'' then clean_elems rooted xs (''..'' # acc)
             else clean_elems rooted xs as)
      else clean_elems rooted xs (x # acc))"

fun join_path :: "string list \<Rightarrow> string" where
  "join_path [] = []"
| "join_path [x] = x"
| "join_path (x # y # ys) = x @ ''/'' @ join_path (y # ys)"

definition sample_Clean :: "string \<Rightarrow> string" where
  "sample_Clean p =
     (let rooted = (case p of [] \<Rightarrow> False | c # cs \<Rightarrow> c = CHR ''/'');
          s = join_path (clean_elems rooted (split_on CHR ''/'' p) [])
      in if rooted then CHR ''/'' # s else if s = [] then ''.'' else s)"

definition sample_Dir :: "string \<Rightarrow> string" where
  "sample_Dir p = sample_Clean (rev (dropWhile (\<lambda>c. c \<noteq> CHR ''/'') (rev p)))"

definition sample_Base :: "string \<Rightarrow> string" where
  "sample_Base p =
     (if p = [] then ''.''
      else
        let q = rev (dropWhile (\<lambda>c. c = CHR ''/'') (rev p))
        in if q = [] then ''/'' else rev (takeWhile (\<lambda>c. c \<noteq> CHR ''/'') (rev q)))"

definition sample_lib :: "State option lib" where
  "sample_lib =
     \<lparr>filepath_Dir = sample_Dir, filepath_Base = sample_Base,
      json_MarshalIndent = (\<lambda>st. Inr (Some st)),
      json_Unmarshal = (\<lambda>data old.
         case data of
           None \<Rightarrow> (Some (Err ''invalid character''), Some old)
         | Some st \<Rightarrow> (None, Some st))\<rparr>"

definition sample_world :: "State option world" where
  "sample_world =
     \<lparr>files = Map.empty, now = 1000, mkdir_err = Map.empty, write_err = Map.empty,
      read_err = Map.empty, ctx_Err = None, delivered = []\<rparr>"

definition sample_store :: "int \<Rightarrow> Manager" where
  "sample_store hours =
     \<lparr>filePath = ''/var/lib/ssl-monitor/state.json'', cooldownHours = hours,
      state = \<lparr>Entries = Some [''a.com'' \<mapsto> Some [30 \<mapsto> 0]]\<rparr>\<rparr>"

definition sample_domain :: "int \<Rightarrow> DomainConfig" where
  "sample_domain port = \<lparr>Host = ''a.com'', Port = port, Name = [], InsecureSkipVerify = False\<rparr>"

definition sample_result :: "real \<Rightarrow> CheckResult" where
  "sample_result days =
     \<lparr>Result_Domain = sample_domain 443, Success = True, Error = None,
      Result_Expiry = 5000, Result_DaysRemaining = days\<rparr>"

definition working_channel :: "string \<Rightarrow> State option Notifier" where
  "working_channel name =
     \<lparr>Notifier_Name = name,
      Notifier_Send = (\<lambda>n w. (None, w\<lparr>delivered := delivered w @ [(name, n)]\<rparr>))\<rparr>"

definition failing_channel :: "string \<Rightarrow> State option Notifier" where
  "failing_channel name =
     \<lparr>Notifier_Name = name,
      Notifier_Send = (\<lambda>n w. (Some (Err ''unexpected status code: 500''), w))\<rparr>"

definition no_channels :: NotificationsConfig where
  "no_channels =
     \<lparr>Slack = \<lparr>Slack_Enabled = False, Slack_WebhookURL = [], Slack_Channel = [],
                Slack_Username = [], Slack_IconEmoji = []\<rparr>,
      Email = \<lparr>Email_Enabled = False, Email_SMTPHost = [], Email_SMTPPort = 0,
                Email_Username = [], Email_Password = [], Email_From = [], Email_To = [],
                Email_UseTLS = False\<rparr>,
      Webhook = \<lparr>Webhook_Enabled = False, Webhook_URL = [], Webhook_Method = [],
                  Webhook_Headers = None, Webhook_BodyTemplate = []\<rparr>,
      Discord = \<lparr>Discord_Enabled = False, Discord_WebhookURL = [], Discord_Username = [],
                  Discord_AvatarURL = []\<rparr>\<rparr>"

definition sample_transports :: "State option transports" where
  "sample_transports =
     \<lparr>slack_post = (\<lambda>cfg. Notifier_Send (working_channel ''Slack'')),
      email_submit = (\<lambda>cfg. Notifier_Send (working_channel ''Email'')),
      webhook_request = (\<lambda>cfg. Notifier_Send (working_channel ''Webhook'')),
      discord_post = (\<lambda>cfg. Notifier_Send (working_channel ''Discord'')),
      template_Parse = (\<lambda>text. None)\<rparr>"

definition sample_config :: Config where
  "sample_config =
     \<lparr>Domains = [sample_domain 443, sample_domain 8443], ReminderDays = [30, 14, 7, 1],
      Notifications = no_channels,
      State_Config = \<lparr>State_File = ''/var/lib/ssl-monitor/state.json'',
                       State_CooldownHours = 24\<rparr>\<rparr>"

definition sample_engine :: "State option Notifier list \<Rightarrow> State option Engine" where
  "sample_engine ns =
     \<lparr>config = sample_config,
      CheckDomain = (\<lambda>domain w. (sample_result (13 / 2), w)),
      notifier = notifier_NewManager ns\<rparr>"

text \<open>A world in which no file can be written.\<close>

definition readonly_world :: "State option world" where
  "readonly_world = sample_world\<lparr>write_err := (\<lambda>p. Some (Err ''read-only file system''))\<rparr>"

text \<open>A world in which the directory of the state file cannot be created.\<close>

definition nodir_world :: "State option world" where
  "nodir_world =
     sample_world\<lparr>mkdir_err := [''/var/lib/ssl-monitor'' \<mapsto> Err ''permission denied'']\<rparr>"

text \<open>A world in which the configured state file cannot be written.\<close>

definition unwritable_world :: "State option world" where
  "unwritable_world =
     sample_world\<lparr>write_err :=
       [''/var/lib/ssl-monitor/state.json'' \<mapsto> Err ''permission denied'']\<rparr>"

definition roundtrip_store :: Manager where
  "roundtrip_store =
     \<lparr>filePath = ''/var/lib/ssl-monitor/state.json'', cooldownHours = 24,
      state = \<lparr>Entries = Some [''a.com'' \<mapsto> Some [30 \<mapsto> 1111, 7 \<mapsto> 2222]]\<rparr>\<rparr>"

text \<open>Worlds in which the state file holds an encoded state, and a text that is not JSON.\<close>

definition stored_world :: "State option world" where
  "stored_world =
     sample_world\<lparr>files :=
       [''/var/lib/ssl-monitor/state.json'' \<mapsto> Some (state roundtrip_store)]\<rparr>"

definition garbled_world :: "State option world" where
  "garbled_world = sample_world\<lparr>files := [''/var/lib/ssl-monitor/state.json'' \<mapsto> None]\<rparr>"

text \<open>
  A world in which the state file holds the encoding of a state whose entries are nil,
  as the decoder gives it for \<^verbatim>\<open>{"entries": null}\<close>.
\<close>

definition null_entries_world :: "State option world" where
  "null_entries_world =
     sample_world\<lparr>files :=
       [''/var/lib/ssl-monitor/state.json'' \<mapsto> Some \<lparr>Entries = None\<rparr>]\<rparr>"

definition sample_notification :: Notification where
  "sample_notification =
     \<lparr>Domain = sample_domain 443, DaysRemaining = 13 / 2, Expiry = 5000, Threshold = 7\<rparr>"

section \<open>Properties of the cooldown store\<close>

subsection \<open>Durations\<close>

lemma Duration_mul_exact:
  assumes "- 2562047 \<le> h" and "h \<le> 2562047"
  shows "Duration_mul h time_Hour = h * 3600000000000"
proof -
  have "(word_of_int h :: 64 word) * word_of_int 3600000000000 = word_of_int (h * 3600000000000)"
    by simp
  moreover have "- (2 ^ 63) \<le> h * 3600000000000" and "h * 3600000000000 < 2 ^ 63"
    using assms by simp_all
  ultimately show ?thesis
    unfolding Duration_mul_def time_Hour_def
    by (simp add: sint_sbintrunc' signed_take_bit_int_eq_self del: of_int_mult)
qed

lemma cooldown_less_Sub:
  assumes "- 2562047 \<le> h" and "h \<le> 2562047"
  shows "(h * 3600000000000 < time_Sub t u) = (h * 3600000000000 < t - u)"
  using assms by (auto simp: time_Sub_def Let_def maxDuration_def minDuration_def)

subsection \<open>Eligibility\<close>

lemma ShouldSend_lastSent:
  "ShouldSend m w d t =
     (case lastSent_of m d t of
        None \<Rightarrow> True
      | Some ls \<Rightarrow> Duration_mul (cooldownHours m) time_Hour < time_Since w ls)"
  by (simp add: ShouldSend_def lastSent_of_def split: option.splits)

lemma NewManager_no_file:
  assumes "path = [] \<or> (files w0 path = None \<and> read_err w0 path = None)"
  shows "state_NewManager L path hours w0 =
           Returns (Inr \<lparr>filePath = path, cooldownHours = hours,
                         state = \<lparr>Entries = Some Map.empty\<rparr>\<rparr>)"
  using assms by (auto simp: state_NewManager_def state_load_def os_ReadFile_def Let_def)

text \<open>
  Claim C4, as amended. When the configured number of hours is at most 2562047 in
  absolute value (the hours that fit a 64-bit duration), \<open>ShouldSend\<close> is true exactly
  when the store holds no entry for the pair or the clock minus the last-sent timestamp of
  the pair is strictly greater than that number of hours, the same for every domain and
  threshold. A store constructed when no state file exists (or with no path) is
  constructed without error, holds no entry, and \<open>ShouldSend\<close> is true for every pair.
\<close>

theorem ShouldSend_cooldown:
  "(- 2562047 \<le> cooldownHours m \<and> cooldownHours m \<le> 2562047 \<longrightarrow>
      ShouldSend m w d t =
        (case lastSent_of m d t of
           None \<Rightarrow> True
         | Some ls \<Rightarrow> cooldownHours m * 3600000000000 < now w - ls)) \<and>
   (path = [] \<or> (files w0 path = None \<and> read_err w0 path = None) \<longrightarrow>
      (\<exists>m0. state_NewManager L path hours w0 = Returns (Inr m0) \<and>
            lastSent_of m0 d t = None \<and> ShouldSend m0 w1 d t))"
proof (intro conjI impI)
  assume "- 2562047 \<le> cooldownHours m \<and> cooldownHours m \<le> 2562047"
  then show "ShouldSend m w d t =
        (case lastSent_of m d t of
           None \<Rightarrow> True
         | Some ls \<Rightarrow> cooldownHours m * 3600000000000 < now w - ls)"
    by (simp add: ShouldSend_lastSent Duration_mul_exact time_Since_def cooldown_less_Sub
        split: option.splits)
next
  assume "path = [] \<or> (files w0 path = None \<and> read_err w0 path = None)"
  then have "state_NewManager L path hours w0 =
           Returns (Inr \<lparr>filePath = path, cooldownHours = hours,
                         state = \<lparr>Entries = Some Map.empty\<rparr>\<rparr>)"
    by (rule NewManager_no_file)
  then show "\<exists>m0. state_NewManager L path hours w0 = Returns (Inr m0) \<and>
            lastSent_of m0 d t = None \<and> ShouldSend m0 w1 d t"
    by (simp add: ShouldSend_lastSent lastSent_of_def map_index_def)
qed

theorem ShouldSend_cooldown_witness:
  "ShouldSend (sample_store 24) (sample_world\<lparr>now := 86400000000001\<rparr>) ''a.com'' 30 \<and>
   \<not> ShouldSend (sample_store 24) (sample_world\<lparr>now := 86400000000000\<rparr>) ''a.com'' 30 \<and>
   (\<exists>m0. state_NewManager sample_lib ''/var/lib/ssl-monitor/state.json'' 24 sample_world
            = Returns (Inr m0) \<and> ShouldSend m0 sample_world ''a.com'' 30)"
  using ShouldSend_cooldown [of "sample_store 24" "sample_world\<lparr>now := 86400000000001\<rparr>"
      "''a.com''" 30 "''/var/lib/ssl-monitor/state.json''" sample_world sample_lib 24 sample_world]
    ShouldSend_cooldown [of "sample_store 24" "sample_world\<lparr>now := 86400000000000\<rparr>"
      "''a.com''" 30 "''/var/lib/ssl-monitor/state.json''" sample_world sample_lib 24 sample_world]
  by (auto simp: sample_store_def sample_world_def lastSent_of_def map_index_def)

text \<open>
  Claim C4 as stated fails for a cooldown of 2562048 hours: the product with one hour
  wraps around to a negative duration, and \<open>ShouldSend\<close> is true for a pair whose entry is
  1000 nanoseconds old.
\<close>

theorem ShouldSend_cooldown_overflow:
  "lastSent_of (sample_store 2562048) ''a.com'' 30 = Some 0 \<and>
   \<not> (cooldownHours (sample_store 2562048) * 3600000000000 < now sample_world - 0) \<and>
   ShouldSend (sample_store 2562048) sample_world ''a.com'' 30"
  by (simp add: sample_store_def sample_world_def lastSent_of_def map_index_def
      ShouldSend_def Duration_mul_def time_Hour_def time_Since_def time_Sub_def
      maxDuration_def minDuration_def)

subsection \<open>Recording a send\<close>


lemma GetLastSent_lastSent:
  "GetLastSent m d t =
     (case lastSent_of m d t of None \<Rightarrow> (zeroTime, False) | Some ls \<Rightarrow> (ls, True))"
  by (simp add: GetLastSent_def lastSent_of_def split: option.splits)

lemma save_keeps_state:
  assumes "state_save L m w = (r, m', w')"
  shows "state m' = state m \<and> cooldownHours m' = cooldownHours m"
  using assms
  by (auto simp: state_save_def Let_def os_MkdirAll_def os_WriteFile_def
      split: if_splits option.splits sum.splits prod.splits)

lemma lastSent_of_state: "state m' = state m \<Longrightarrow> lastSent_of m' = lastSent_of m"
  by (intro ext) (simp add: lastSent_of_def)

lemma allocated_state: "state m' = state m \<Longrightarrow> allocated m' = allocated m"
  by (simp add: allocated_def)

lemma MarkSent_returns:
  assumes "allocated m"
  shows "\<exists>r m' w'. MarkSent L m w d t = Returns (r, m', w') \<and> allocated m' \<and>
           cooldownHours m' = cooldownHours m \<and>
           (\<forall>d' t'. lastSent_of m' d' t' =
              (if d' = d \<and> t' = t then Some (now w) else lastSent_of m d' t'))"
proof -
  from assms obtain es where es: "Entries (state m) = Some es" and inner: "\<And>x. es x \<noteq> Some None"
    by (auto simp: allocated_def split: option.splits)
  define es1 where "es1 = (if es d = None then es(d \<mapsto> Some Map.empty) else es)"
  obtain ths where ths: "es1 d = Some (Some ths)" and ths_eq: "ths = (case es d of Some (Some f) \<Rightarrow> f | _ \<Rightarrow> Map.empty)"
    using inner [of d] by (cases "es d") (auto simp: es1_def)
  define m1 where "m1 = m\<lparr>state := (state m)\<lparr>Entries := Some (es1(d \<mapsto> Some (ths(t \<mapsto> now w))))\<rparr>\<rparr>"
  have ms: "MarkSent L m w d t = Returns (state_save L m1 w)"
    using es ths by (simp add: MarkSent_def Let_def es1_def [symmetric] m1_def)
  obtain r m' w' where sv: "state_save L m1 w = (r, m', w')"
    by (cases "state_save L m1 w") auto
  from save_keeps_state [OF sv] have st: "state m' = state m1" and ch: "cooldownHours m' = cooldownHours m1"
    by simp_all
  have a1: "allocated m1"
    using inner by (auto simp: allocated_def m1_def es1_def)
  have l1: "lastSent_of m1 d' t' = (if d' = d \<and> t' = t then Some (now w) else lastSent_of m d' t')" for d' t'
    using es inner [of d] ths
    by (cases "es d") (auto simp: lastSent_of_def map_index_def m1_def es1_def ths_eq split: option.splits)
  show ?thesis
    using ms sv a1 l1 ch allocated_state [OF st] lastSent_of_state [OF st]
    by (simp add: m1_def)
qed

lemma pairs_mark:
  assumes "\<forall>d' t'. lastSent_of m' d' t' = (if d' = d \<and> t' = t then Some x else lastSent_of m d' t')"
  shows "pairs m' = insert (d, t) (pairs m)"
  using assms by (auto simp: pairs_def)

text \<open>
  Where the invariant comes from: a store that \<^verbatim>\<open>NewManager\<close> returns has its inner maps
  allocated, and its outer map unless the decoder left it nil; \<^verbatim>\<open>MarkSent\<close> keeps the
  invariant and \<^verbatim>\<open>Clear\<close> establishes it.
\<close>

lemma ensure_nested_inner:
  "Entries (ensure_nested st) = Some es \<Longrightarrow> es d \<noteq> Some None"
  by (auto simp: ensure_nested_def split: option.splits)

lemma NewManager_allocated:
  assumes "state_NewManager L path hours w = Returns (Inr m)"
  shows "allocated m = (Entries (state m) \<noteq> None)"
proof -
  from assms have "state m = \<lparr>Entries = Some Map.empty\<rparr> \<or> (\<exists>st. state m = ensure_nested st)"
    by (auto simp: state_NewManager_def state_load_def Let_def
        split: if_splits sum.splits option.splits prod.splits exec.splits)
  then show ?thesis
    by (auto simp: allocated_def ensure_nested_inner split: option.splits)
qed

lemma Clear_allocated:
  assumes "Clear L m w = (r, m', w')"
  shows "allocated m' \<and> pairs m' = {}"
proof -
  from save_keeps_state [OF assms [unfolded Clear_def]]
  have "state m' = (state m)\<lparr>Entries := Some Map.empty\<rparr>"
    by simp
  then show ?thesis
    by (simp add: allocated_def pairs_def lastSent_of_def map_index_def)
qed

text \<open>
  What claim C6 says of two calls of \<open>MarkSent\<close> holds of every store whose maps are
  allocated: for the same pair, the second call at a clock reading that is not earlier
  than the first, both calls return; afterwards the store holds for the pair the later of
  the two timestamps, and the pairs with an entry are those the first call left: the pair
  itself added to the pairs before, every other entry as it was.
\<close>

theorem MarkSent_twice:
  assumes "allocated m" and "now w1 \<le> now w2"
  shows "\<exists>r1 m1 w1' r2 m2 w2'.
           MarkSent L m w1 d t = Returns (r1, m1, w1') \<and>
           MarkSent L m1 w2 d t = Returns (r2, m2, w2') \<and>
           GetLastSent m2 d t = (max (now w1) (now w2), True) \<and>
           pairs m1 = insert (d, t) (pairs m) \<and> pairs m2 = pairs m1 \<and>
           (\<forall>d' t'. (d', t') \<noteq> (d, t) \<longrightarrow> lastSent_of m2 d' t' = lastSent_of m d' t')"
proof -
  from MarkSent_returns [OF assms(1), of L w1 d t]
  obtain r1 m1 w1' where 1: "MarkSent L m w1 d t = Returns (r1, m1, w1')" and a1: "allocated m1"
    and l1: "\<forall>d' t'. lastSent_of m1 d' t' =
              (if d' = d \<and> t' = t then Some (now w1) else lastSent_of m d' t')"
    by blast
  from MarkSent_returns [OF a1, of L w2 d t]
  obtain r2 m2 w2' where 2: "MarkSent L m1 w2 d t = Returns (r2, m2, w2')"
    and l2: "\<forall>d' t'. lastSent_of m2 d' t' =
              (if d' = d \<and> t' = t then Some (now w2) else lastSent_of m1 d' t')"
    by blast
  have g: "GetLastSent m2 d t = (max (now w1) (now w2), True)"
    using l2 assms(2) by (simp add: GetLastSent_lastSent max_def)
  have p1: "pairs m1 = insert (d, t) (pairs m)"
    using l1 by (rule pairs_mark)
  have p2: "pairs m2 = pairs m1"
    using pairs_mark [OF l2] p1 by auto
  have o: "\<forall>d' t'. (d', t') \<noteq> (d, t) \<longrightarrow> lastSent_of m2 d' t' = lastSent_of m d' t'"
    using l1 l2 by auto
  show ?thesis using 1 2 g p1 p2 o by blast
qed

lemma sample_store_allocated: "allocated (sample_store h)"
  by (simp add: allocated_def sample_store_def)

theorem MarkSent_twice_witness:
  "allocated (sample_store 24) \<and> now sample_world \<le> now (sample_world\<lparr>now := 2000\<rparr>) \<and>
   (\<exists>r1 m1 w1' r2 m2 w2'.
      MarkSent sample_lib (sample_store 24) sample_world ''a.com'' 7 = Returns (r1, m1, w1') \<and>
      MarkSent sample_lib m1 (sample_world\<lparr>now := 2000\<rparr>) ''a.com'' 7 = Returns (r2, m2, w2') \<and>
      GetLastSent m2 ''a.com'' 7 = (2000, True) \<and>
      lastSent_of m2 ''a.com'' 30 = lastSent_of (sample_store 24) ''a.com'' 30)"
proof -
  have a: "allocated (sample_store 24)"
    by (rule sample_store_allocated)
  have b: "now sample_world \<le> now (sample_world\<lparr>now := 2000\<rparr>)"
    by (simp add: sample_world_def)
  have c: "max (now sample_world) (now (sample_world\<lparr>now := 2000\<rparr>)) = 2000"
    by (simp add: sample_world_def)
  from MarkSent_twice [OF a b, of sample_lib "''a.com''" 7] show ?thesis
    using a b unfolding c by fastforce
qed

text \<open>
  Claim C6 fails on a store that the program constructs. \<^verbatim>\<open>load\<close> allocates the inner
  maps that the decoder left nil ("Ensure nested maps exist") and not the outer map: from
  a state file whose entries are null \<open>NewManager\<close> returns, without error, a store with
  a nil outer map; \<open>ShouldSend\<close> is true for every pair of it, and the first \<open>MarkSent\<close>
  panics on the write into the nil map, so that no entry is recorded.
\<close>

theorem MarkSent_nil_entries:
  "state_NewManager sample_lib ''/var/lib/ssl-monitor/state.json'' 24 null_entries_world =
     Returns (Inr \<lparr>filePath = ''/var/lib/ssl-monitor/state.json'', cooldownHours = 24,
                   state = \<lparr>Entries = None\<rparr>\<rparr>) \<and>
   ShouldSend \<lparr>filePath = ''/var/lib/ssl-monitor/state.json'', cooldownHours = 24,
               state = \<lparr>Entries = None\<rparr>\<rparr> null_entries_world ''a.com'' 30 \<and>
   MarkSent sample_lib \<lparr>filePath = ''/var/lib/ssl-monitor/state.json'', cooldownHours = 24,
                        state = \<lparr>Entries = None\<rparr>\<rparr> null_entries_world ''a.com'' 30 = Panics"
  by (simp add: state_NewManager_def state_load_def os_ReadFile_def ensure_nested_def
      sample_lib_def null_entries_world_def sample_world_def ShouldSend_def map_index_def
      MarkSent_def Let_def)

subsection \<open>Persisting and loading\<close>

lemma save_cases:
  assumes "filePath m \<noteq> []" and "json_MarshalIndent L (state m) = Inr data"
  shows "state_save L m w =
     (if write_err w (redirected L m w) = None then
        (None, m\<lparr>filePath := redirected L m w\<rparr>,
         w\<lparr>files := (files w)(redirected L m w \<mapsto> data)\<rparr>)
      else if write_err w fallbackName = None then
        (None, m\<lparr>filePath := fallbackName\<rparr>, w\<lparr>files := (files w)(fallbackName \<mapsto> data)\<rparr>)
      else
        (Some (Wrapped ''failed to write state file'' (the (write_err w fallbackName))),
         m\<lparr>filePath := redirected L m w\<rparr>, w))"
  using assms
  by (auto simp: state_save_def redirected_def Let_def os_WriteFile_def os_MkdirAll_def
      split: option.splits)

lemma save_marshal_error:
  assumes "filePath m \<noteq> []" and "json_MarshalIndent L (state m) = Inl e"
  shows "fst (state_save L m w) = Some (Wrapped ''failed to marshal state'' e)"
  using assms
  by (auto simp: state_save_def Let_def split: option.splits)

lemma save_written:
  assumes "filePath m \<noteq> []" and "state_save L m w = (None, m', w')"
  shows "\<exists>data. json_MarshalIndent L (state m) = Inr data \<and> files w' (filePath m') = Some data
           \<and> read_err w' = read_err w"
proof (cases "json_MarshalIndent L (state m)")
  case (Inl e)
  from save_marshal_error [OF assms(1) Inl, of w] assms(2) show ?thesis by simp
next
  case (Inr data)
  from save_cases [OF assms(1) Inr, of w] assms(2) show ?thesis
    using Inr by (auto split: if_splits)
qed

lemma NewManager_reads:
  assumes "path \<noteq> []" and "os_ReadFile w path = Inr data"
    and "json_Unmarshal L data \<lparr>Entries = Some Map.empty\<rparr> = (None, Some st)"
  shows "state_NewManager L path hours w =
           Returns (Inr \<lparr>filePath = path, cooldownHours = hours, state = ensure_nested st\<rparr>)"
  using assms by (simp add: state_NewManager_def state_load_def Let_def)

lemma NewManager_missing:
  assumes "os_ReadFile w path = Inl e" and "os_IsNotExist e"
  shows "state_NewManager L path hours w =
           Returns (Inr \<lparr>filePath = path, cooldownHours = hours,
                         state = \<lparr>Entries = Some Map.empty\<rparr>\<rparr>)"
  using assms by (simp add: state_NewManager_def state_load_def Let_def)

lemma NewManager_malformed:
  assumes "path \<noteq> []" and "os_ReadFile w path = Inr data"
    and "fst (json_Unmarshal L data \<lparr>Entries = Some Map.empty\<rparr>) = Some e"
  shows "state_NewManager L path hours w =
           Returns (Inl (Wrapped ''failed to load state'' (Wrapped ''failed to unmarshal state'' e)))"
  using assms by (auto simp: state_NewManager_def state_load_def Let_def split: prod.splits)

lemma save_fixed_name:
  assumes "filepath_Dir L fallbackName = ''.''" and "filePath m = fallbackName"
    and "state_save L m w = (r, m', w')"
  shows "filePath m' = fallbackName \<and> (\<forall>p. p \<noteq> fallbackName \<longrightarrow> files w' p = files w p)"
  using assms
  by (auto simp: state_save_def Let_def os_WriteFile_def os_MkdirAll_def fallbackName_def
      split: option.splits sum.splits if_splits)

text \<open>
  Claim C9. On construction with a path, a file that can be read and decoded gives the
  store of the decoded state (nil inner maps replaced by empty ones); a file that does
  not exist is no error and gives the empty store; a file that the decoder rejects makes
  the construction return an error and no store.
\<close>

theorem NewManager_load_policy:
  "(path \<noteq> [] \<and> os_ReadFile w path = Inr data \<and>
    json_Unmarshal L data \<lparr>Entries = Some Map.empty\<rparr> = (None, Some st) \<longrightarrow>
      state_NewManager L path hours w =
        Returns (Inr \<lparr>filePath = path, cooldownHours = hours, state = ensure_nested st\<rparr>)) \<and>
   (os_ReadFile w path = Inl e \<and> os_IsNotExist e \<longrightarrow>
      state_NewManager L path hours w =
        Returns (Inr \<lparr>filePath = path, cooldownHours = hours,
                      state = \<lparr>Entries = Some Map.empty\<rparr>\<rparr>)) \<and>
   (path \<noteq> [] \<and> os_ReadFile w path = Inr data \<and>
    fst (json_Unmarshal L data \<lparr>Entries = Some Map.empty\<rparr>) = Some e' \<longrightarrow>
      state_NewManager L path hours w =
        Returns (Inl (Wrapped ''failed to load state''
                       (Wrapped ''failed to unmarshal state'' e'))))"
  using NewManager_reads [of path w data L st hours] NewManager_missing [of w path e L hours]
    NewManager_malformed [of path w data L e' hours]
  by blast

theorem NewManager_load_policy_witness:
  "state_NewManager sample_lib ''/var/lib/ssl-monitor/state.json'' 24 stored_world =
     Returns (Inr \<lparr>filePath = ''/var/lib/ssl-monitor/state.json'', cooldownHours = 24,
                   state = ensure_nested (state roundtrip_store)\<rparr>) \<and>
   state_NewManager sample_lib ''/var/lib/ssl-monitor/state.json'' 24 sample_world =
     Returns (Inr \<lparr>filePath = ''/var/lib/ssl-monitor/state.json'', cooldownHours = 24,
                   state = \<lparr>Entries = Some Map.empty\<rparr>\<rparr>) \<and>
   state_NewManager sample_lib ''/var/lib/ssl-monitor/state.json'' 24 garbled_world =
     Returns (Inl (Wrapped ''failed to load state''
                    (Wrapped ''failed to unmarshal state'' (Err ''invalid character''))))"
proof -
  let ?p = "''/var/lib/ssl-monitor/state.json''"
  have 1: "os_ReadFile stored_world ?p = Inr (Some (state roundtrip_store))"
    by (simp add: os_ReadFile_def stored_world_def sample_world_def)
  have 2: "json_Unmarshal sample_lib (Some (state roundtrip_store)) \<lparr>Entries = Some Map.empty\<rparr>
             = (None, Some (state roundtrip_store))"
    by (simp add: sample_lib_def)
  have 3: "os_ReadFile sample_world ?p = Inl ErrNotExist"
    by (simp add: os_ReadFile_def sample_world_def)
  have 4: "os_ReadFile garbled_world ?p = Inr None"
    by (simp add: os_ReadFile_def garbled_world_def sample_world_def)
  have 5: "fst (json_Unmarshal sample_lib None \<lparr>Entries = Some Map.empty\<rparr>)
             = Some (Err ''invalid character'')"
    by (simp add: sample_lib_def)
  show ?thesis
    using NewManager_load_policy [of ?p stored_world "Some (state roundtrip_store)" sample_lib
        "state roundtrip_store" 24 ErrNotExist "Err ''invalid character''"]
      NewManager_load_policy [of ?p sample_world "Some (state roundtrip_store)" sample_lib
        "state roundtrip_store" 24 ErrNotExist "Err ''invalid character''"]
      NewManager_load_policy [of ?p garbled_world None sample_lib
        "state roundtrip_store" 24 ErrNotExist "Err ''invalid character''"]
      1 2 3 4 5
    by simp
qed

text \<open>
  Claim C7. When a store with a path has been persisted without error, by an encoder
  whose output the decoder turns back into the same state, and the file it wrote can be
  read, then a store constructed on the path the first store ended with is constructed
  without error and \<open>GetLastSent\<close> returns for every pair what it returned in the first
  store.
\<close>

theorem save_then_load:
  assumes "filePath m \<noteq> []" and "state_save L m w = (None, m', w')"
    and "read_err w' (filePath m') = None"
    and "\<forall>data. json_MarshalIndent L (state m) = Inr data \<longrightarrow>
           json_Unmarshal L data \<lparr>Entries = Some Map.empty\<rparr> = (None, Some (state m))"
  shows "\<exists>m2. state_NewManager L (filePath m') hours w' = Returns (Inr m2) \<and>
           (\<forall>d t. GetLastSent m2 d t = GetLastSent m d t)"
proof -
  from save_written [OF assms(1,2)] obtain data where
    d: "json_MarshalIndent L (state m) = Inr data" and f: "files w' (filePath m') = Some data"
    by blast
  have p: "filePath m' \<noteq> []"
    using save_cases [OF assms(1) d, of w] assms(1,2)
    by (auto simp: fallbackName_def redirected_def Let_def split: if_splits)
  have r: "os_ReadFile w' (filePath m') = Inr data"
    using f assms(3) by (simp add: os_ReadFile_def)
  from assms(4) d have u: "json_Unmarshal L data \<lparr>Entries = Some Map.empty\<rparr> = (None, Some (state m))"
    by blast
  let ?m2 = "\<lparr>filePath = filePath m', cooldownHours = hours, state = ensure_nested (state m)\<rparr>"
  have n: "state_NewManager L (filePath m') hours w' = Returns (Inr ?m2)"
    using NewManager_reads [OF p r u] .
  have "lastSent_of ?m2 d t = lastSent_of m d t" for d t
    by (simp add: lastSent_of_def ensure_nested_def map_index_def split: option.splits)
  then have "\<forall>d t. GetLastSent ?m2 d t = GetLastSent m d t"
    by (simp add: GetLastSent_lastSent)
  with n show ?thesis by blast
qed

theorem save_then_load_witness:
  "state_save sample_lib roundtrip_store sample_world = (None, roundtrip_store, stored_world) \<and>
   (\<exists>m2. state_NewManager sample_lib (filePath roundtrip_store) 24 stored_world
            = Returns (Inr m2) \<and>
         GetLastSent m2 ''a.com'' 30 = (1111, True) \<and>
         GetLastSent m2 ''a.com'' 7 = (2222, True))"
proof -
  have 1: "filePath roundtrip_store \<noteq> []"
    by (simp add: roundtrip_store_def)
  have 2: "state_save sample_lib roundtrip_store sample_world = (None, roundtrip_store, stored_world)"
    by (simp add: state_save_def roundtrip_store_def sample_lib_def sample_world_def
        stored_world_def sample_Dir_def sample_Clean_def os_MkdirAll_def os_WriteFile_def Let_def)
  have 3: "read_err stored_world (filePath roundtrip_store) = None"
    by (simp add: stored_world_def sample_world_def)
  have 4: "\<forall>data. json_MarshalIndent sample_lib (state roundtrip_store) = Inr data \<longrightarrow>
           json_Unmarshal sample_lib data \<lparr>Entries = Some Map.empty\<rparr>
             = (None, Some (state roundtrip_store))"
    by (auto simp: sample_lib_def)
  have 5: "GetLastSent roundtrip_store ''a.com'' 30 = (1111, True)"
      "GetLastSent roundtrip_store ''a.com'' 7 = (2222, True)"
    by (simp_all add: GetLastSent_def roundtrip_store_def map_index_def)
  from save_then_load [OF 1 2 3 4, of 24] show ?thesis
    using 2 5 by auto
qed

text \<open>
  Claim C8, as amended. A persist of a store with a path, whose state the encoder
  accepts, writes to the path left by the directory step: the configured path, or its
  base name when the directory could not be created. When that write is refused it writes
  once more, to the fixed name in the current directory; when this write succeeds the
  persist succeeds and the store's path becomes the fixed name, and when it is refused
  too the persist returns its error. The path left by the directory step stays in the
  store in each case. Once the path of the store is the fixed name, it stays the fixed
  name and a persist touches no other file.
\<close>

theorem save_fallback:
  "(filePath m \<noteq> [] \<and> json_MarshalIndent L (state m) = Inr data \<longrightarrow>
      state_save L m w =
        (if write_err w (redirected L m w) = None then
           (None, m\<lparr>filePath := redirected L m w\<rparr>,
            w\<lparr>files := (files w)(redirected L m w \<mapsto> data)\<rparr>)
         else if write_err w fallbackName = None then
           (None, m\<lparr>filePath := fallbackName\<rparr>,
            w\<lparr>files := (files w)(fallbackName \<mapsto> data)\<rparr>)
         else
           (Some (Wrapped ''failed to write state file'' (the (write_err w fallbackName))),
            m\<lparr>filePath := redirected L m w\<rparr>, w))) \<and>
   (filepath_Dir L fallbackName = ''.'' \<and> filePath m1 = fallbackName \<and>
    state_save L m1 w1 = (r, m', w') \<longrightarrow>
      filePath m' = fallbackName \<and> (\<forall>p. p \<noteq> fallbackName \<longrightarrow> files w' p = files w1 p))"
  using save_cases [of m L data w] save_fixed_name [of L m1 w1 r m' w'] by blast

theorem save_fallback_witness:
  "state_save sample_lib roundtrip_store unwritable_world =
     (None, roundtrip_store\<lparr>filePath := fallbackName\<rparr>,
      unwritable_world\<lparr>files := [fallbackName \<mapsto> Some (state roundtrip_store)]\<rparr>) \<and>
   filePath (fst (snd (state_save sample_lib (roundtrip_store\<lparr>filePath := fallbackName\<rparr>)
      unwritable_world))) = fallbackName"
proof -
  have 1: "filePath roundtrip_store \<noteq> []"
    by (simp add: roundtrip_store_def)
  have 2: "json_MarshalIndent sample_lib (state roundtrip_store) = Inr (Some (state roundtrip_store))"
    by (simp add: sample_lib_def)
  have 3: "redirected sample_lib roundtrip_store unwritable_world = ''/var/lib/ssl-monitor/state.json''"
    by (simp add: redirected_def sample_lib_def roundtrip_store_def unwritable_world_def
        sample_world_def sample_Dir_def sample_Clean_def os_MkdirAll_def)
  have 4: "write_err unwritable_world ''/var/lib/ssl-monitor/state.json'' \<noteq> None"
      "write_err unwritable_world fallbackName = None" "files unwritable_world = Map.empty"
    by (simp_all add: unwritable_world_def sample_world_def fallbackName_def)
  have 5: "filepath_Dir sample_lib fallbackName = ''.''"
    by (simp add: sample_lib_def sample_Dir_def sample_Clean_def fallbackName_def)
  obtain r m' w' where 6: "state_save sample_lib (roundtrip_store\<lparr>filePath := fallbackName\<rparr>)
      unwritable_world = (r, m', w')"
    by (cases "state_save sample_lib (roundtrip_store\<lparr>filePath := fallbackName\<rparr>) unwritable_world") auto
  show ?thesis
    using save_fallback [of roundtrip_store sample_lib "Some (state roundtrip_store)"
        unwritable_world "roundtrip_store\<lparr>filePath := fallbackName\<rparr>" unwritable_world r m' w']
      1 2 3 4 5 6
    by simp
qed

text \<open>
  Claim C8 as stated fails when the directory of the state file cannot be created: the
  persist succeeds by writing the file \<open>state.json\<close>, the base name of the configured
  path, and no file of the fixed name exists afterwards.
\<close>

theorem save_fallback_base_name:
  "mkdir_err nodir_world ''/var/lib/ssl-monitor'' = Some (Err ''permission denied'') \<and>
   state_save sample_lib (sample_store 24) nodir_world =
     (None, (sample_store 24)\<lparr>filePath := ''state.json''\<rparr>,
      nodir_world\<lparr>files := [''state.json'' \<mapsto> Some (state (sample_store 24))]\<rparr>) \<and>
   files (nodir_world\<lparr>files := [''state.json'' \<mapsto> Some (state (sample_store 24))]\<rparr>)
     fallbackName = None"
  by (simp add: state_save_def sample_lib_def sample_store_def nodir_world_def sample_world_def
      sample_Dir_def sample_Clean_def sample_Base_def os_MkdirAll_def os_WriteFile_def fallbackName_def Let_def)

section \<open>Properties of the dispatcher\<close>

lemma send_loop_outcomes:
  "channel_outcomes cs n w = (rs, w') \<Longrightarrow> send_loop cs n w errs = (errs @ failures rs, w')"
proof (induction cs arbitrary: w errs rs w')
  case Nil
  then show ?case by simp
next
  case (Cons c cs)
  obtain r w1 where s: "Notifier_Send c n w = (r, w1)"
    by (cases "Notifier_Send c n w") auto
  obtain rs1 w2 where o: "channel_outcomes cs n w1 = (rs1, w2)"
    by (cases "channel_outcomes cs n w1") auto
  from Cons.prems s o have rs: "rs = (Notifier_Name c, r) # rs1" and w': "w' = w2"
    by simp_all
  show ?case
    using Cons.IH [OF o] s rs w' by (cases r) simp_all
qed

lemma outcomes_names:
  "channel_outcomes cs n w = (rs, w') \<Longrightarrow> map fst rs = map Notifier_Name cs"
  by (induction cs arbitrary: w rs w') (auto split: prod.splits)

lemma failures_Nil_iff: "(failures rs = []) = all_succeeded rs"
  by (induction rs rule: failures.induct) simp_all

text \<open>
  Claim C3. With the outcomes of the channels, each invoked once with the notification,
  in the order of registration, on the world its predecessors left: the names of the
  outcomes are the names of the registered channels in order, the world after \<open>Send\<close> is
  the world after the last channel, and \<open>Send\<close> returns nil when every channel
  succeeded and otherwise one error that lists, in order, every failing channel's name
  with its error.
\<close>

theorem Manager_Send_outcomes:
  assumes "channel_outcomes (notifiers M) n w = (rs, w')"
  shows "map fst rs = map Notifier_Name (notifiers M) \<and>
         Manager_Send M n w =
           (if all_succeeded rs then None
            else Some (Joined ''failed to send notifications'' (failures rs)), w')"
  using send_loop_outcomes [OF assms, of "[]"] outcomes_names [OF assms]
  by (simp add: Manager_Send_def failures_Nil_iff [symmetric])

theorem Manager_Send_outcomes_witness:
  "channel_outcomes (notifiers (notifier_NewManager
      [failing_channel ''Slack'', working_channel ''Email'', failing_channel ''Discord'']))
      sample_notification sample_world =
     ([(''Slack'', Some (Err ''unexpected status code: 500'')), (''Email'', None),
       (''Discord'', Some (Err ''unexpected status code: 500''))],
      sample_world\<lparr>delivered := [(''Email'', sample_notification)]\<rparr>) \<and>
   Manager_Send (notifier_NewManager
      [failing_channel ''Slack'', working_channel ''Email'', failing_channel ''Discord''])
      sample_notification sample_world =
     (Some (Joined ''failed to send notifications''
              [Wrapped ''Slack'' (Err ''unexpected status code: 500''),
               Wrapped ''Discord'' (Err ''unexpected status code: 500'')]),
      sample_world\<lparr>delivered := [(''Email'', sample_notification)]\<rparr>)"
proof -
  have 1: "channel_outcomes (notifiers (notifier_NewManager
      [failing_channel ''Slack'', working_channel ''Email'', failing_channel ''Discord'']))
      sample_notification sample_world =
     ([(''Slack'', Some (Err ''unexpected status code: 500'')), (''Email'', None),
       (''Discord'', Some (Err ''unexpected status code: 500''))],
      sample_world\<lparr>delivered := [(''Email'', sample_notification)]\<rparr>)"
    by (simp add: notifier_NewManager_def failing_channel_def working_channel_def
        sample_world_def)
  from Manager_Send_outcomes [OF 1] 1 show ?thesis by simp
qed

section \<open>Properties of the engine\<close>

lemma sends_append: "sends (xs @ ys) = sends xs @ sends ys"
  by (induction xs rule: sends.induct) simp_all

lemma marks_append: "marks (xs @ ys) = marks xs @ marks ys"
  by (induction xs rule: marks.induct) simp_all

lemma consulted_append: "consulted (xs @ ys) = consulted xs @ consulted ys"
  by (induction xs rule: consulted.induct) simp_all

lemma marked_by_append: "marked_by (xs @ ys) = marked_by xs @ marked_by ys"
  by (induction xs rule: marked_by.induct) simp_all

lemma body_not_crossed:
  "\<not> crossed (Result_DaysRemaining r) t \<Longrightarrow> threshold_body L e d r t st = ([], Returns st)"
  by (cases st) (auto simp: threshold_body_def crossed_def)

lemma body_skipped:
  assumes "crossed (Result_DaysRemaining r) t" and "\<not> ShouldSend m w (Host d) t"
  shows "threshold_body L e d r t (c, m, w) =
     ([Call_ShouldSend (Host d) t False,
       Log LevelDebug ''Skipping notification due to cooldown''
         [(''domain'', AStr (domainName_of d)), (''threshold'', AInt t),
          (''last_sent'', ATime ''RFC3339'' (fst (GetLastSent m (Host d) t)))]],
      Returns (c, m, w))"
  using assms by (auto simp: threshold_body_def crossed_def split: prod.splits)

lemma body_failed:
  assumes "crossed (Result_DaysRemaining r) t" and "ShouldSend m w (Host d) t"
    and "Manager_Send (notifier e)
           \<lparr>Domain = d, DaysRemaining = Result_DaysRemaining r, Expiry = Result_Expiry r,
            Threshold = t\<rparr> w = (Some err, w1)"
  shows "\<exists>evs. threshold_body L e d r t (c, m, w) = (evs, Returns (c, m, w1)) \<and>
           consulted evs = [(Host d, t)] \<and>
           sends evs = [(\<lparr>Domain = d, DaysRemaining = Result_DaysRemaining r,
                          Expiry = Result_Expiry r, Threshold = t\<rparr>, Some err)] \<and>
           marks evs = []"
  using assms by (simp add: threshold_body_def crossed_def Let_def)

lemma body_sent:
  assumes "crossed (Result_DaysRemaining r) t" and "ShouldSend m w (Host d) t"
    and "Manager_Send (notifier e)
           \<lparr>Domain = d, DaysRemaining = Result_DaysRemaining r, Expiry = Result_Expiry r,
            Threshold = t\<rparr> w = (None, w1)"
  shows "\<exists>evs. threshold_body L e d r t (c, m, w) =
             (evs, case MarkSent L m w1 (Host d) t of
                     Panics \<Rightarrow> Panics
                   | Returns (res, m2, w2) \<Rightarrow>
                       Returns (if res = None then c + 1 else c, m2, w2)) \<and>
           consulted evs = [(Host d, t)] \<and>
           sends evs = [(\<lparr>Domain = d, DaysRemaining = Result_DaysRemaining r,
                          Expiry = Result_Expiry r, Threshold = t\<rparr>, None)] \<and>
           marks evs = [(Host d, t)]"
  using assms
  by (auto simp: threshold_body_def crossed_def Let_def split: exec.splits option.splits)

lemma body_sent_events:
  assumes "crossed (Result_DaysRemaining r) t" and "ShouldSend m w (Host d) t"
    and "Manager_Send (notifier e)
           \<lparr>Domain = d, DaysRemaining = Result_DaysRemaining r, Expiry = Result_Expiry r,
            Threshold = t\<rparr> w = (None, w1)"
    and "MarkSent L m w1 (Host d) t = Returns (x, m2, w2)"
  shows "threshold_body L e d r t (c, m, w) =
     ([Call_ShouldSend (Host d) t True,
       Log LevelInfo ''Sending notification''
         [(''domain'', AStr (domainName_of d)),
          (''days_remaining'', AFloat (Result_DaysRemaining r)),
          (''threshold'', AInt t)],
       Call_Send \<lparr>Domain = d, DaysRemaining = Result_DaysRemaining r,
                  Expiry = Result_Expiry r, Threshold = t\<rparr> None,
       Call_MarkSent (Host d) t] @
      (case x of
         None \<Rightarrow> []
       | Some err \<Rightarrow>
           [Log LevelError ''Failed to update state''
              [(''domain'', AStr (domainName_of d)), (''error'', AErr (Some err))]]),
      Returns (if x = None then c + 1 else c, m2, w2))"
  using assms
  by (cases x) (simp_all add: threshold_body_def crossed_def Let_def)

lemma body_events:
  assumes "threshold_body L e d r t st = (evs, res)"
  shows "marks evs = marked_by (sends evs) \<and>
         consulted evs = (if crossed (Result_DaysRemaining r) t then [(Host d, t)] else [])"
proof -
  obtain c m w where st: "st = (c, m, w)" by (cases st) auto
  let ?n = "\<lparr>Domain = d, DaysRemaining = Result_DaysRemaining r, Expiry = Result_Expiry r,
            Threshold = t\<rparr>"
  show ?thesis
  proof (cases "crossed (Result_DaysRemaining r) t")
    case False
    with assms body_not_crossed [OF False, of L e d st] show ?thesis by auto
  next
    case True
    show ?thesis
    proof (cases "ShouldSend m w (Host d) t")
      case False
      with assms body_skipped [OF True False, of L e c] st True show ?thesis by auto
    next
      case s: True
      obtain a w1 where ms: "Manager_Send (notifier e) ?n w = (a, w1)"
        by (cases "Manager_Send (notifier e) ?n w") auto
      show ?thesis
      proof (cases a)
        case None
        with body_sent [OF True s, of e w1 L c] ms assms st True show ?thesis by auto
      next
        case (Some err)
        with body_failed [OF True s, of e err w1 L c] ms assms st True show ?thesis by auto
      qed
    qed
  qed
qed

lemma loop_events:
  "thresholds_loop L e d r ts st = (evs, res) \<Longrightarrow> marks evs = marked_by (sends evs)"
proof (induction ts arbitrary: st evs res)
  case Nil
  then show ?case by simp
next
  case (Cons t ts)
  obtain evs1 res1 where b: "threshold_body L e d r t st = (evs1, res1)"
    by (cases "threshold_body L e d r t st") auto
  from body_events [OF b] have m1: "marks evs1 = marked_by (sends evs1)" by simp
  show ?case
  proof (cases res1)
    case Panics
    with Cons.prems b m1 show ?thesis by simp
  next
    case (Returns st1)
    obtain evs2 res2 where l: "thresholds_loop L e d r ts st1 = (evs2, res2)"
      by (cases "thresholds_loop L e d r ts st1") auto
    from Cons.IH [OF l] have m2: "marks evs2 = marked_by (sends evs2)" .
    from Cons.prems b Returns l have "evs = evs1 @ evs2" by simp
    with m1 m2 show ?thesis
      by (simp add: marks_append sends_append marked_by_append)
  qed
qed

lemma loop_consulted:
  "thresholds_loop L e d r ts st = (evs, Returns st') \<Longrightarrow>
     consulted evs = map (Pair (Host d)) (filter (crossed (Result_DaysRemaining r)) ts)"
proof (induction ts arbitrary: st evs)
  case Nil
  then show ?case by simp
next
  case (Cons t ts)
  obtain evs1 res1 where b: "threshold_body L e d r t st = (evs1, res1)"
    by (cases "threshold_body L e d r t st") auto
  from body_events [OF b]
  have c1: "consulted evs1 = (if crossed (Result_DaysRemaining r) t then [(Host d, t)] else [])"
    by simp
  show ?case
  proof (cases res1)
    case Panics
    with Cons.prems b show ?thesis by simp
  next
    case (Returns st1)
    obtain evs2 res2 where l: "thresholds_loop L e d r ts st1 = (evs2, res2)"
      by (cases "thresholds_loop L e d r ts st1") auto
    from Cons.prems b Returns l have e: "evs = evs1 @ evs2" and r2: "res2 = Returns st'"
      by simp_all
    from Cons.IH [OF l [unfolded r2]] c1 e show ?thesis
      by (simp add: consulted_append)
  qed
qed

lemma checkThresholds_events:
  assumes "checkThresholds L e d r m w = (evs, res)"
  shows "marks evs = marked_by (sends evs)"
proof -
  obtain evs1 res1 where l: "thresholds_loop L e d r (ReminderDays (config e)) (0, m, w) = (evs1, res1)"
    by (cases "thresholds_loop L e d r (ReminderDays (config e)) (0, m, w)") auto
  from loop_events [OF l] have "marks evs1 = marked_by (sends evs1)" .
  with assms l show ?thesis
    by (cases res1) (auto simp: checkThresholds_def marks_append sends_append marked_by_append)
qed

lemma checkThresholds_consulted:
  assumes "checkThresholds L e d r m w = (evs, Returns st')"
  shows "consulted evs =
           map (Pair (Host d)) (filter (crossed (Result_DaysRemaining r)) (ReminderDays (config e)))"
proof -
  obtain evs1 res1 where l: "thresholds_loop L e d r (ReminderDays (config e)) (0, m, w) = (evs1, res1)"
    by (cases "thresholds_loop L e d r (ReminderDays (config e)) (0, m, w)") auto
  from assms l obtain st1 where r1: "res1 = Returns st1"
    by (cases res1) (auto simp: checkThresholds_def)
  from loop_consulted [OF l [unfolded r1]] assms l r1 show ?thesis
    by (auto simp: checkThresholds_def consulted_append split: if_splits)
qed

lemma loop_none_crossed:
  "\<forall>t \<in> set ts. \<not> crossed (Result_DaysRemaining r) t \<Longrightarrow>
     thresholds_loop L e d r ts st = ([], Returns st)"
  by (induction ts) (simp_all add: body_not_crossed)

lemma checkThresholds_expired:
  assumes "Result_DaysRemaining r \<le> 0"
  shows "checkThresholds L e d r m w =
     ([Log LevelError ''Certificate has expired!''
         [(''domain'', AStr (domainName_of d)),
          (''days_remaining'', AFloat (Result_DaysRemaining r)),
          (''expiry'', ATime ''2006-01-02'' (Result_Expiry r))]],
      Returns (0, m, w))"
proof -
  have "\<forall>t \<in> set (ReminderDays (config e)). \<not> crossed (Result_DaysRemaining r) t"
    using assms by (simp add: crossed_def)
  from loop_none_crossed [OF this, of L e d "(0, m, w)"] assms show ?thesis
    by (simp add: checkThresholds_def)
qed

lemma time_Sub_mono: "t \<le> t' \<Longrightarrow> time_Sub t u \<le> time_Sub t' u"
  by (auto simp: time_Sub_def Let_def maxDuration_def minDuration_def)

lemma ShouldSend_later:
  assumes "ShouldSend m w d t" and "now w \<le> now w1"
  shows "ShouldSend m w1 d t"
proof (cases "lastSent_of m d t")
  case None
  then show ?thesis by (simp add: ShouldSend_lastSent)
next
  case (Some ls)
  from assms(1) Some have "Duration_mul (cooldownHours m) time_Hour < time_Sub (now w) ls"
    by (simp add: ShouldSend_lastSent time_Since_def)
  also have "\<dots> \<le> time_Sub (now w1) ls"
    using assms(2) by (rule time_Sub_mono)
  finally show ?thesis
    using Some by (simp add: ShouldSend_lastSent time_Since_def)
qed

lemma save_keeps_delivered:
  assumes "state_save L m w = (r, m', w')"
  shows "delivered w' = delivered w \<and> now w' = now w"
  using assms
  by (auto simp: state_save_def Let_def os_MkdirAll_def os_WriteFile_def
      split: if_splits option.splits sum.splits prod.splits)

lemma MarkSent_Returns:
  assumes "MarkSent L m w d t = Returns (r, m', w')"
  shows "lastSent_of m' d t = Some (now w) \<and> cooldownHours m' = cooldownHours m \<and>
         delivered w' = delivered w"
proof -
  from assms obtain m1 where sv: "state_save L m1 w = (r, m', w')"
    and l: "lastSent_of m1 d t = Some (now w)" and c: "cooldownHours m1 = cooldownHours m"
    by (auto simp: MarkSent_def Let_def lastSent_of_def map_index_def
        split: option.splits if_splits)
  from save_keeps_state [OF sv] save_keeps_delivered [OF sv] l c show ?thesis
    by (simp add: lastSent_of_def)
qed

lemma domains_loop_events:
  "domains_loop L e ds st = (evs, res) \<Longrightarrow> marks evs = marked_by (sends evs)"
proof (induction ds arbitrary: st evs res)
  case Nil
  then show ?case by simp
next
  case (Cons domain rest)
  obtain totalChecked totalErrors totalNotifications m w
    where st: "st = ((totalChecked, totalErrors, totalNotifications), m, w)"
    by (cases st) auto
  show ?case
  proof (cases "ctx_Err w \<noteq> None")
    case True
    with Cons.prems st show ?thesis by auto
  next
    case False
    obtain result w1 where chk: "CheckDomain e domain w = (result, w1)"
      by (cases "CheckDomain e domain w") auto
    show ?thesis
    proof (cases "Success result")
      case f: False
      obtain evs2 r2 where l: "domains_loop L e rest
          ((totalChecked + 1, totalErrors + 1, totalNotifications), m, w1) = (evs2, r2)"
        by (cases "domains_loop L e rest
          ((totalChecked + 1, totalErrors + 1, totalNotifications), m, w1)") auto
      from Cons.IH [OF l] have "marks evs2 = marked_by (sends evs2)" .
      with Cons.prems st False chk f l show ?thesis
        by (auto simp: Let_def)
    next
      case s: True
      obtain evs1 r1 where ct: "checkThresholds L e domain result m w1 = (evs1, r1)"
        by (cases "checkThresholds L e domain result m w1") auto
      from checkThresholds_events [OF ct] have m1: "marks evs1 = marked_by (sends evs1)" .
      show ?thesis
      proof (cases r1)
        case Panics
        with Cons.prems st False chk s ct m1 show ?thesis
          by (auto simp: Let_def)
      next
        case (Returns st1)
        obtain notificationsSent m2 w2 where st1: "st1 = (notificationsSent, m2, w2)"
          by (cases st1) auto
        obtain evs2 r2 where l: "domains_loop L e rest
            ((totalChecked + 1, totalErrors, totalNotifications + notificationsSent), m2, w2)
              = (evs2, r2)"
          by (cases "domains_loop L e rest
            ((totalChecked + 1, totalErrors, totalNotifications + notificationsSent), m2, w2)") auto
        from Cons.IH [OF l] have "marks evs2 = marked_by (sends evs2)" .
        with Cons.prems st False chk s ct Returns st1 l m1 show ?thesis
          by (auto simp: Let_def marks_append sends_append marked_by_append)
      qed
    qed
  qed
qed

lemma Run_events:
  assumes "Run L e m w = (evs, res)"
  shows "marks evs = marked_by (sends evs)"
proof -
  obtain evs1 r1 where l: "domains_loop L e (Domains (config e)) ((0, 0, 0), m, w) = (evs1, r1)"
    by (cases "domains_loop L e (Domains (config e)) ((0, 0, 0), m, w)") auto
  from domains_loop_events [OF l] have "marks evs1 = marked_by (sends evs1)" .
  with assms l show ?thesis
    by (auto simp: Run_def marks_append sends_append marked_by_append
        split: exec.splits option.splits prod.splits)
qed

lemma body_dispatch_failed:
  assumes "threshold_body L e d r t (c, m, w) = (evs, res)"
    and "(n, Some err) \<in> set (sends evs)"
  shows "n = \<lparr>Domain = d, DaysRemaining = Result_DaysRemaining r, Expiry = Result_Expiry r,
              Threshold = t\<rparr> \<and> crossed (Result_DaysRemaining r) t \<and>
         ShouldSend m w (Host d) t \<and>
         (\<exists>w1. Manager_Send (notifier e) n w = (Some err, w1) \<and> res = Returns (c, m, w1)) \<and>
         marks evs = []"
proof -
  let ?n = "\<lparr>Domain = d, DaysRemaining = Result_DaysRemaining r, Expiry = Result_Expiry r,
            Threshold = t\<rparr>"
  have cr: "crossed (Result_DaysRemaining r) t"
  proof (rule ccontr)
    assume "\<not> crossed (Result_DaysRemaining r) t"
    from body_not_crossed [OF this, of L e d "(c, m, w)"] assms show False by simp
  qed
  have el: "ShouldSend m w (Host d) t"
  proof (rule ccontr)
    assume "\<not> ShouldSend m w (Host d) t"
    from body_skipped [OF cr this, of L e c] assms show False by simp
  qed
  obtain a w1 where ms: "Manager_Send (notifier e) ?n w = (a, w1)"
    by (cases "Manager_Send (notifier e) ?n w") auto
  show ?thesis
  proof (cases a)
    case None
    with body_sent [OF cr el, of e w1 L c] ms assms show ?thesis by auto
  next
    case (Some err')
    with body_failed [OF cr el, of e err' w1 L c] ms assms cr el show ?thesis by auto
  qed
qed

lemma body_dispatched:
  assumes "threshold_body L e d r t (c, m, w) = (evs, res)"
    and "(n, None) \<in> set (sends evs)"
  shows "n = \<lparr>Domain = d, DaysRemaining = Result_DaysRemaining r, Expiry = Result_Expiry r,
              Threshold = t\<rparr> \<and> crossed (Result_DaysRemaining r) t \<and>
         ShouldSend m w (Host d) t \<and>
         (\<exists>w1. Manager_Send (notifier e) n w = (None, w1) \<and>
               res = (case MarkSent L m w1 (Host d) t of
                        Panics \<Rightarrow> Panics
                      | Returns (x, m2, w2) \<Rightarrow>
                          Returns (if x = None then c + 1 else c, m2, w2))) \<and>
         marks evs = [(Host d, t)]"
proof -
  let ?n = "\<lparr>Domain = d, DaysRemaining = Result_DaysRemaining r, Expiry = Result_Expiry r,
            Threshold = t\<rparr>"
  have cr: "crossed (Result_DaysRemaining r) t"
  proof (rule ccontr)
    assume "\<not> crossed (Result_DaysRemaining r) t"
    from body_not_crossed [OF this, of L e d "(c, m, w)"] assms show False by simp
  qed
  have el: "ShouldSend m w (Host d) t"
  proof (rule ccontr)
    assume "\<not> ShouldSend m w (Host d) t"
    from body_skipped [OF cr this, of L e c] assms show False by simp
  qed
  obtain a w1 where ms: "Manager_Send (notifier e) ?n w = (a, w1)"
    by (cases "Manager_Send (notifier e) ?n w") auto
  show ?thesis
  proof (cases a)
    case None
    with body_sent [OF cr el, of e w1 L c] ms assms cr el show ?thesis by auto
  next
    case (Some err')
    with body_failed [OF cr el, of e err' w1 L c] ms assms show ?thesis by auto
  qed
qed

lemma ShouldSend_within_cooldown:
  assumes "- 2562047 \<le> cooldownHours m" and "cooldownHours m \<le> 2562047"
    and "lastSent_of m d t = Some ts" and "now w - ts \<le> cooldownHours m * 3600000000000"
  shows "\<not> ShouldSend m w d t"
  using assms
  by (simp add: ShouldSend_lastSent Duration_mul_exact time_Since_def cooldown_less_Sub)

lemma BuildNotifiers_none_enabled:
  assumes "\<not> Slack_Enabled (Slack cfg)" and "\<not> Email_Enabled (Email cfg)"
    and "\<not> Webhook_Enabled (Webhook cfg)" and "\<not> Discord_Enabled (Discord cfg)"
  shows "BuildNotifiers T cfg = Inr (notifier_NewManager [])"
  using assms by (simp add: BuildNotifiers_def)

lemma Manager_Send_no_channels: "Manager_Send (notifier_NewManager []) n w = (None, w)"
  by (simp add: Manager_Send_def notifier_NewManager_def)

lemmas sample_defs = sample_lib_def sample_world_def sample_store_def sample_domain_def
  sample_result_def working_channel_def failing_channel_def sample_config_def sample_engine_def
  readonly_world_def nodir_world_def unwritable_world_def roundtrip_store_def
  sample_notification_def sample_Dir_def sample_Clean_def sample_Base_def notifier_NewManager_def

lemmas code_defs = threshold_body_def ShouldSend_def MarkSent_def state_save_def GetLastSent_def
  Manager_Send_def map_index_def os_MkdirAll_def os_WriteFile_def Duration_mul_def time_Hour_def
  time_Since_def time_Sub_def maxDuration_def minDuration_def fallbackName_def domainName_of_def
  Let_def

text \<open>
  Claim C1. In the events of a run, the pairs for which \<open>MarkSent\<close> is called are, in
  order, the host and threshold of the notifications for which the dispatcher returned
  nil: one call for each of them and none for any other. An iteration whose dispatch
  returns an error, whatever the channels that succeeded, makes no call of \<open>MarkSent\<close>
  and returns the store it was given and the world the dispatcher left; the pair was
  eligible and, unless the clock went backwards, still is.
\<close>

theorem MarkSent_iff_dispatched:
  "(Run L e m w = (evs, res) \<longrightarrow> marks evs = marked_by (sends evs)) \<and>
   (threshold_body L e d r t (c, m, w) = (evs1, res1) \<and> (n, Some err) \<in> set (sends evs1) \<longrightarrow>
      marks evs1 = [] \<and> ShouldSend m w (Host d) t \<and>
      (\<exists>w1. Manager_Send (notifier e) n w = (Some err, w1) \<and> res1 = Returns (c, m, w1) \<and>
            (now w \<le> now w1 \<longrightarrow> ShouldSend m w1 (Host d) t)))"
proof (intro conjI impI)
  assume "Run L e m w = (evs, res)"
  then show "marks evs = marked_by (sends evs)" by (rule Run_events)
next
  assume a: "threshold_body L e d r t (c, m, w) = (evs1, res1) \<and> (n, Some err) \<in> set (sends evs1)"
  from body_dispatch_failed [of L e d r t c m w evs1 res1 n err] a
  show "marks evs1 = []" and "ShouldSend m w (Host d) t"
    by simp_all
  from body_dispatch_failed [of L e d r t c m w evs1 res1 n err] a
  obtain w1 where "Manager_Send (notifier e) n w = (Some err, w1)" and "res1 = Returns (c, m, w1)"
    and "ShouldSend m w (Host d) t"
    by blast
  then show "\<exists>w1. Manager_Send (notifier e) n w = (Some err, w1) \<and> res1 = Returns (c, m, w1) \<and>
            (now w \<le> now w1 \<longrightarrow> ShouldSend m w1 (Host d) t)"
    using ShouldSend_later [of m w "Host d" t w1] by blast
qed

theorem MarkSent_iff_dispatched_witness:
  "marks (fst (Run sample_lib (sample_engine [working_channel ''Slack'']) (sample_store 24)
       sample_world)) = [(''a.com'', 14), (''a.com'', 7)] \<and>
   marked_by (sends (fst (Run sample_lib (sample_engine [working_channel ''Slack''])
       (sample_store 24) sample_world))) = [(''a.com'', 14), (''a.com'', 7)] \<and>
   snd (threshold_body sample_lib
       (sample_engine [failing_channel ''Slack'', working_channel ''Email''])
       (sample_domain 443) (sample_result (13 / 2)) 7 (0, sample_store 24, sample_world)) =
     Returns (0, sample_store 24,
              sample_world\<lparr>delivered := [(''Email'', sample_notification)]\<rparr>) \<and>
   ShouldSend (sample_store 24)
     (sample_world\<lparr>delivered := [(''Email'', sample_notification)]\<rparr>) ''a.com'' 7"
proof -
  let ?e1 = "sample_engine [working_channel ''Slack'']"
  let ?e2 = "sample_engine [failing_channel ''Slack'', working_channel ''Email'']"
  let ?err = "Joined ''failed to send notifications''
                [Wrapped ''Slack'' (Err ''unexpected status code: 500'')]"
  let ?w1 = "sample_world\<lparr>delivered := [(''Email'', sample_notification)]\<rparr>"
  obtain evs res where 1: "Run sample_lib ?e1 (sample_store 24) sample_world = (evs, res)"
    by (cases "Run sample_lib ?e1 (sample_store 24) sample_world") auto
  have 2: "marks (fst (Run sample_lib ?e1 (sample_store 24) sample_world))
             = [(''a.com'', 14), (''a.com'', 7)]"
    by (simp add: Run_def checkThresholds_def code_defs sample_defs)
  obtain evs1 where 3: "threshold_body sample_lib ?e2 (sample_domain 443) (sample_result (13 / 2)) 7
      (0, sample_store 24, sample_world) = (evs1, Returns (0, sample_store 24, ?w1))"
    and 4: "sends evs1 = [(sample_notification, Some ?err)]"
    by (simp add: code_defs sample_defs)
  have 5: "Manager_Send (notifier ?e2) sample_notification sample_world = (Some ?err, ?w1)"
    by (simp add: code_defs sample_defs)
  have 6: "now sample_world \<le> now ?w1"
    by (simp add: sample_world_def)
  from MarkSent_iff_dispatched [where L = sample_lib and e = ?e1 and m = "sample_store 24"
      and w = sample_world and evs = evs and res = res]
    MarkSent_iff_dispatched [where L = sample_lib and e = ?e2 and m = "sample_store 24"
      and w = sample_world and d = "sample_domain 443" and r = "sample_result (13 / 2)"
      and t = 7 and c = 0 and ?evs1.0 = evs1 and ?res1.0 = "Returns (0, sample_store 24, ?w1)"
      and n = sample_notification and err = ?err]
  show ?thesis
    using 1 2 3 4 5 6 by (simp add: sample_domain_def)
qed

text \<open>
  Claim C2. For a threshold that the days remaining do not cross (not \<open>0 < days \<le> t\<close>)
  an iteration does nothing; for one they cross it consults the store for the host and
  the threshold. So the thresholds for which \<open>checkThresholds\<close> consults the store are the
  configured ones that are crossed, in order; for 6.5 days and [30, 14, 7, 1] these are
  30, 14 and 7. With days remaining at most 0 no threshold is crossed and
  \<open>checkThresholds\<close> sends and changes nothing: its only event is the error record
  that the certificate has expired.
\<close>

theorem thresholds_crossed:
  "(\<not> crossed (Result_DaysRemaining r) t \<longrightarrow>
      threshold_body L e d r t st = ([], Returns st)) \<and>
   consulted (fst (threshold_body L e d r t st)) =
     (if crossed (Result_DaysRemaining r) t then [(Host d, t)] else []) \<and>
   (checkThresholds L e d r m w = (evs, Returns st') \<longrightarrow>
      consulted evs =
        map (Pair (Host d))
          (filter (crossed (Result_DaysRemaining r)) (ReminderDays (config e)))) \<and>
   filter (crossed (13 / 2)) [30, 14, 7, 1] = [30, 14, 7] \<and>
   (Result_DaysRemaining r \<le> 0 \<longrightarrow>
      (\<forall>t'. \<not> crossed (Result_DaysRemaining r) t') \<and>
      checkThresholds L e d r m w =
        ([Log LevelError ''Certificate has expired!''
            [(''domain'', AStr (domainName_of d)),
             (''days_remaining'', AFloat (Result_DaysRemaining r)),
             (''expiry'', ATime ''2006-01-02'' (Result_Expiry r))]],
         Returns (0, m, w)))"
proof (intro conjI impI)
  assume "\<not> crossed (Result_DaysRemaining r) t"
  then show "threshold_body L e d r t st = ([], Returns st)"
    by (rule body_not_crossed)
next
  show "consulted (fst (threshold_body L e d r t st)) =
     (if crossed (Result_DaysRemaining r) t then [(Host d, t)] else [])"
    using body_events [of L e d r t st "fst (threshold_body L e d r t st)"
        "snd (threshold_body L e d r t st)"]
    by simp
next
  assume "checkThresholds L e d r m w = (evs, Returns st')"
  then show "consulted evs =
        map (Pair (Host d))
          (filter (crossed (Result_DaysRemaining r)) (ReminderDays (config e)))"
    by (rule checkThresholds_consulted)
next
  show "filter (crossed (13 / 2)) [30, 14, 7, 1] = [30, 14, 7]"
    by (simp add: crossed_def)
next
  assume "Result_DaysRemaining r \<le> 0"
  then show "\<forall>t'. \<not> crossed (Result_DaysRemaining r) t'"
    by (simp add: crossed_def)
next
  assume "Result_DaysRemaining r \<le> 0"
  then show "checkThresholds L e d r m w =
        ([Log LevelError ''Certificate has expired!''
            [(''domain'', AStr (domainName_of d)),
             (''days_remaining'', AFloat (Result_DaysRemaining r)),
             (''expiry'', ATime ''2006-01-02'' (Result_Expiry r))]],
         Returns (0, m, w))"
    by (rule checkThresholds_expired)
qed

theorem thresholds_crossed_witness:
  "threshold_body sample_lib (sample_engine [working_channel ''Slack'']) (sample_domain 443)
     (sample_result (13 / 2)) 1 (0, sample_store 24, sample_world) =
     ([], Returns (0, sample_store 24, sample_world)) \<and>
   consulted (fst (checkThresholds sample_lib (sample_engine [working_channel ''Slack''])
     (sample_domain 443) (sample_result (13 / 2)) (sample_store 24) sample_world)) =
     [(''a.com'', 30), (''a.com'', 14), (''a.com'', 7)] \<and>
   checkThresholds sample_lib (sample_engine [working_channel ''Slack'']) (sample_domain 443)
     (sample_result (- 2)) (sample_store 24) sample_world =
     ([Log LevelError ''Certificate has expired!''
         [(''domain'', AStr ''a.com''), (''days_remaining'', AFloat (- 2)),
          (''expiry'', ATime ''2006-01-02'' 5000)]],
      Returns (0, sample_store 24, sample_world))"
proof -
  let ?e = "sample_engine [working_channel ''Slack'']"
  have 1: "\<not> crossed (Result_DaysRemaining (sample_result (13 / 2))) 1"
    by (simp add: crossed_def sample_result_def)
  obtain evs st' where 2: "checkThresholds sample_lib ?e (sample_domain 443)
      (sample_result (13 / 2)) (sample_store 24) sample_world = (evs, Returns st')"
    by (simp add: checkThresholds_def code_defs sample_defs)
  have 3: "map (Pair (Host (sample_domain 443)))
             (filter (crossed (Result_DaysRemaining (sample_result (13 / 2))))
                (ReminderDays (config ?e))) = [(''a.com'', 30), (''a.com'', 14), (''a.com'', 7)]"
    by (simp add: crossed_def sample_defs)
  have 4: "Result_DaysRemaining (sample_result (- 2)) \<le> 0"
    by (simp add: sample_result_def)
  have 5: "domainName_of (sample_domain 443) = ''a.com''"
      "Result_DaysRemaining (sample_result (- 2)) = - 2"
      "Result_Expiry (sample_result (- 2)) = 5000"
    by (simp_all add: domainName_of_def sample_domain_def sample_result_def)
  from thresholds_crossed [where L = sample_lib and e = ?e and d = "sample_domain 443"
      and r = "sample_result (13 / 2)" and t = 1 and st = "(0, sample_store 24, sample_world)"
      and m = "sample_store 24" and w = sample_world and evs = evs and st' = st']
    thresholds_crossed [where L = sample_lib and e = ?e and d = "sample_domain 443"
      and r = "sample_result (- 2)" and m = "sample_store 24" and w = sample_world]
  show ?thesis
    using 1 2 3 4 5 by simp
qed

text \<open>
  Claim C5. The engine consults and marks the store under the host of the target. When
  an iteration for one target has dispatched a notification successfully and has
  returned, the store holds a timestamp under the host and the threshold, which is the
  entry of every target with the same host, whatever its port. For such a target an
  iteration in a world where the time since that timestamp does not exceed the cooldown
  of the store finds \<open>ShouldSend\<close> false, dispatches nothing, marks nothing and leaves
  the counter, the store and the world as they are; when the threshold is crossed it has
  consulted the store under that same key.
\<close>

theorem cooldown_keyed_by_host:
  assumes "Host d2 = Host d1"
    and "threshold_body L e d1 r1 t (c, m, w) = (evs, Returns (c1, m1, w1))"
    and "(n, None) \<in> set (sends evs)"
  shows "consulted evs = [(Host d2, t)] \<and> marks evs = [(Host d2, t)] \<and>
         cooldownHours m1 = cooldownHours m \<and>
         (\<exists>ts. lastSent_of m1 (Host d2) t = Some ts \<and>
            (\<forall>w2. time_Since w2 ts \<le> Duration_mul (cooldownHours m1) time_Hour \<longrightarrow>
               \<not> ShouldSend m1 w2 (Host d2) t \<and>
               (\<exists>evs2. threshold_body L e d2 r2 t (c2, m1, w2) = (evs2, Returns (c2, m1, w2)) \<and>
                  sends evs2 = [] \<and> marks evs2 = [] \<and>
                  consulted evs2 =
                    (if crossed (Result_DaysRemaining r2) t then [(Host d1, t)] else []))))"
proof -
  from body_dispatched [OF assms(2,3)]
  obtain w' where r: "Returns (c1, m1, w1) =
      (case MarkSent L m w' (Host d1) t of
         Panics \<Rightarrow> Panics
       | Returns (x, m2, w2) \<Rightarrow> Returns (if x = None then c + 1 else c, m2, w2))"
    and mk: "marks evs = [(Host d1, t)]"
    by blast
  from r obtain x where ms: "MarkSent L m w' (Host d1) t = Returns (x, m1, w1)"
    by (auto split: exec.splits)
  from MarkSent_Returns [OF ms]
  have ls: "lastSent_of m1 (Host d1) t = Some (now w')" and ch: "cooldownHours m1 = cooldownHours m"
    by simp_all
  from body_events [OF assms(2)] body_dispatched [OF assms(2,3)]
  have co: "consulted evs = [(Host d1, t)]"
    by simp
  have "\<not> ShouldSend m1 w2 (Host d2) t \<and>
        (\<exists>evs2. threshold_body L e d2 r2 t (c2, m1, w2) = (evs2, Returns (c2, m1, w2)) \<and>
           sends evs2 = [] \<and> marks evs2 = [] \<and>
           consulted evs2 =
             (if crossed (Result_DaysRemaining r2) t then [(Host d1, t)] else []))"
    if "time_Since w2 (now w') \<le> Duration_mul (cooldownHours m1) time_Hour" for w2
  proof -
    have n: "\<not> ShouldSend m1 w2 (Host d2) t"
      using ls that assms(1) by (simp add: ShouldSend_lastSent)
    show ?thesis
    proof (cases "crossed (Result_DaysRemaining r2) t")
      case True
      from body_skipped [OF True n, of L e c2] assms(1) n True show ?thesis
        by simp
    next
      case False
      from body_not_crossed [OF False, of L e d2 "(c2, m1, w2)"] n False show ?thesis
        by simp
    qed
  qed
  with ls mk co ch assms(1) show ?thesis
    by auto
qed

theorem cooldown_keyed_by_host_witness:
  "Host (sample_domain 8443) = Host (sample_domain 443) \<and>
   Port (sample_domain 8443) \<noteq> Port (sample_domain 443) \<and>
   lastSent_of (sample_store 24) ''a.com'' 7 = None \<and>
   (\<exists>evs m1 w1 evs2.
      threshold_body sample_lib (sample_engine [working_channel ''Slack'']) (sample_domain 443)
        (sample_result (13 / 2)) 7 (0, sample_store 24, sample_world)
        = (evs, Returns (1, m1, w1)) \<and>
      lastSent_of m1 ''a.com'' 7 = Some 1000 \<and>
      threshold_body sample_lib (sample_engine [working_channel ''Slack'']) (sample_domain 8443)
        (sample_result (13 / 2)) 7 (1, m1, w1\<lparr>now := 2000\<rparr>)
        = (evs2, Returns (1, m1, w1\<lparr>now := 2000\<rparr>)) \<and>
      consulted evs2 = [(''a.com'', 7)] \<and> sends evs2 = [])"
proof -
  let ?e = "sample_engine [working_channel ''Slack'']"
  have 1: "Host (sample_domain 8443) = Host (sample_domain 443)"
      "Port (sample_domain 8443) \<noteq> Port (sample_domain 443)"
      "Host (sample_domain 443) = ''a.com''"
    by (simp_all add: sample_domain_def)
  obtain evs m1 w1 where 2: "threshold_body sample_lib ?e (sample_domain 443)
        (sample_result (13 / 2)) 7 (0, sample_store 24, sample_world)
        = (evs, Returns (1, m1, w1))"
    and 3: "sends evs = [(sample_notification, None)]"
    and 4: "lastSent_of m1 ''a.com'' 7 = Some 1000"
    by (simp add: code_defs sample_defs lastSent_of_def)
  have 5: "cooldownHours (sample_store 24) = 24"
    by (simp add: sample_store_def)
  have 6: "crossed (Result_DaysRemaining (sample_result (13 / 2))) 7"
    by (simp add: crossed_def sample_result_def)
  have 7: "(sample_notification, None) \<in> set (sends evs)"
    using 3 by simp
  have 8: "lastSent_of (sample_store 24) ''a.com'' 7 = None"
    by (simp add: lastSent_of_def sample_store_def map_index_def)
  from cooldown_keyed_by_host [OF 1(1) 2 7, of "sample_result (13 / 2)" 1]
  obtain ts where a: "lastSent_of m1 (Host (sample_domain 8443)) 7 = Some ts"
    and h: "cooldownHours m1 = cooldownHours (sample_store 24)"
    and b: "\<forall>w2. time_Since w2 ts \<le> Duration_mul (cooldownHours m1) time_Hour \<longrightarrow>
               \<not> ShouldSend m1 w2 (Host (sample_domain 8443)) 7 \<and>
               (\<exists>evs2. threshold_body sample_lib ?e (sample_domain 8443) (sample_result (13 / 2)) 7
                   (1, m1, w2) = (evs2, Returns (1, m1, w2)) \<and>
                  sends evs2 = [] \<and> marks evs2 = [] \<and>
                  consulted evs2 =
                    (if crossed (Result_DaysRemaining (sample_result (13 / 2))) 7
                     then [(Host (sample_domain 443), 7)] else []))"
    by blast
  from a 4 1 have ts: "ts = 1000" by simp
  have "time_Since (w1\<lparr>now := 2000\<rparr>) ts \<le> Duration_mul (cooldownHours m1) time_Hour"
    using ts h 5
    by (simp add: time_Since_def time_Sub_def Duration_mul_def time_Hour_def maxDuration_def
        minDuration_def)
  with b 6 1 obtain evs2 where "threshold_body sample_lib ?e (sample_domain 8443)
      (sample_result (13 / 2)) 7 (1, m1, w1\<lparr>now := 2000\<rparr>)
        = (evs2, Returns (1, m1, w1\<lparr>now := 2000\<rparr>))" and "sends evs2 = []"
      and "consulted evs2 = [(''a.com'', 7)]"
    by auto
  with 1 2 4 8 show ?thesis by blast
qed

text \<open>
  Claim C10, as amended. With no channel enabled \<open>BuildNotifiers\<close> gives a dispatcher
  with no channel, whose \<open>Send\<close> returns nil and leaves the world as it is. For a
  crossed and eligible pair and a store whose maps are allocated, the iteration of the
  engine then calls \<open>MarkSent\<close>, which returns with the pair marked at the current clock
  reading and nothing delivered. When \<open>MarkSent\<close> returned nil the pair is counted; when
  it returned an error of persisting the pair is not counted and the last event of the
  iteration is the error record "Failed to update state" with that error.
\<close>

theorem no_channels_marks:
  "(\<not> Slack_Enabled (Slack cfg) \<and> \<not> Email_Enabled (Email cfg) \<and>
    \<not> Webhook_Enabled (Webhook cfg) \<and> \<not> Discord_Enabled (Discord cfg) \<longrightarrow>
      BuildNotifiers T cfg = Inr (notifier_NewManager [])) \<and>
   Manager_Send (notifier_NewManager []) n w = (None, w) \<and>
   (notifier e = notifier_NewManager [] \<and> crossed (Result_DaysRemaining r) t \<and>
    ShouldSend m w (Host d) t \<and> allocated m \<longrightarrow>
      (\<exists>x m2 w2.
         MarkSent L m w (Host d) t = Returns (x, m2, w2) \<and>
         threshold_body L e d r t (c, m, w) =
           ([Call_ShouldSend (Host d) t True,
             Log LevelInfo ''Sending notification''
               [(''domain'', AStr (domainName_of d)),
                (''days_remaining'', AFloat (Result_DaysRemaining r)),
                (''threshold'', AInt t)],
             Call_Send \<lparr>Domain = d, DaysRemaining = Result_DaysRemaining r,
                        Expiry = Result_Expiry r, Threshold = t\<rparr> None,
             Call_MarkSent (Host d) t] @
            (case x of
               None \<Rightarrow> []
             | Some err \<Rightarrow>
                 [Log LevelError ''Failed to update state''
                    [(''domain'', AStr (domainName_of d)), (''error'', AErr (Some err))]]),
            Returns (if x = None then c + 1 else c, m2, w2)) \<and>
         lastSent_of m2 (Host d) t = Some (now w) \<and> allocated m2 \<and>
         delivered w2 = delivered w))"
proof (intro conjI impI)
  assume "\<not> Slack_Enabled (Slack cfg) \<and> \<not> Email_Enabled (Email cfg) \<and>
    \<not> Webhook_Enabled (Webhook cfg) \<and> \<not> Discord_Enabled (Discord cfg)"
  then show "BuildNotifiers T cfg = Inr (notifier_NewManager [])"
    by (simp add: BuildNotifiers_none_enabled)
next
  show "Manager_Send (notifier_NewManager []) n w = (None, w)"
    by (rule Manager_Send_no_channels)
next
  assume a: "notifier e = notifier_NewManager [] \<and> crossed (Result_DaysRemaining r) t \<and>
    ShouldSend m w (Host d) t \<and> allocated m"
  let ?n = "\<lparr>Domain = d, DaysRemaining = Result_DaysRemaining r, Expiry = Result_Expiry r,
            Threshold = t\<rparr>"
  from a have s: "Manager_Send (notifier e) ?n w = (None, w)"
    by (simp add: Manager_Send_no_channels)
  from a MarkSent_returns [of m L w "Host d" t]
  obtain x m2 w2 where ms: "MarkSent L m w (Host d) t = Returns (x, m2, w2)"
    and al: "allocated m2"
    by blast
  from a have cr: "crossed (Result_DaysRemaining r) t" and el: "ShouldSend m w (Host d) t"
    by simp_all
  note b = body_sent_events [OF cr el s ms, of c]
  from MarkSent_Returns [OF ms] ms b al
  show "\<exists>x m2 w2.
         MarkSent L m w (Host d) t = Returns (x, m2, w2) \<and>
         threshold_body L e d r t (c, m, w) =
           ([Call_ShouldSend (Host d) t True,
             Log LevelInfo ''Sending notification''
               [(''domain'', AStr (domainName_of d)),
                (''days_remaining'', AFloat (Result_DaysRemaining r)),
                (''threshold'', AInt t)],
             Call_Send \<lparr>Domain = d, DaysRemaining = Result_DaysRemaining r,
                        Expiry = Result_Expiry r, Threshold = t\<rparr> None,
             Call_MarkSent (Host d) t] @
            (case x of
               None \<Rightarrow> []
             | Some err \<Rightarrow>
                 [Log LevelError ''Failed to update state''
                    [(''domain'', AStr (domainName_of d)), (''error'', AErr (Some err))]]),
            Returns (if x = None then c + 1 else c, m2, w2)) \<and>
         lastSent_of m2 (Host d) t = Some (now w) \<and> allocated m2 \<and>
         delivered w2 = delivered w"
    by blast
qed

theorem no_channels_marks_witness:
  "BuildNotifiers sample_transports no_channels = Inr (notifier_NewManager []) \<and>
   (\<exists>m2 w2.
      threshold_body sample_lib (sample_engine []) (sample_domain 443) (sample_result (13 / 2)) 7
        (0, sample_store 24, sample_world) =
        ([Call_ShouldSend ''a.com'' 7 True,
          Log LevelInfo ''Sending notification''
            [(''domain'', AStr ''a.com''), (''days_remaining'', AFloat (13 / 2)),
             (''threshold'', AInt 7)],
          Call_Send sample_notification None, Call_MarkSent ''a.com'' 7],
         Returns (1, m2, w2)) \<and>
      lastSent_of m2 ''a.com'' 7 = Some 1000 \<and> delivered w2 = []) \<and>
   (\<exists>m2.
      threshold_body sample_lib (sample_engine []) (sample_domain 443) (sample_result (13 / 2)) 7
        (0, sample_store 24, readonly_world) =
        ([Call_ShouldSend ''a.com'' 7 True,
          Log LevelInfo ''Sending notification''
            [(''domain'', AStr ''a.com''), (''days_remaining'', AFloat (13 / 2)),
             (''threshold'', AInt 7)],
          Call_Send sample_notification None, Call_MarkSent ''a.com'' 7,
          Log LevelError ''Failed to update state''
            [(''domain'', AStr ''a.com''),
             (''error'', AErr (Some (Wrapped ''failed to write state file''
                                      (Err ''read-only file system''))))]],
         Returns (0, m2, readonly_world)) \<and>
      lastSent_of m2 ''a.com'' 7 = Some 1000)"
proof -
  have 1: "\<not> Slack_Enabled (Slack no_channels) \<and> \<not> Email_Enabled (Email no_channels) \<and>
    \<not> Webhook_Enabled (Webhook no_channels) \<and> \<not> Discord_Enabled (Discord no_channels)"
    by (simp add: no_channels_def)
  have 2: "notifier (sample_engine []) = notifier_NewManager []"
    by (simp add: sample_engine_def)
  have 3: "crossed (Result_DaysRemaining (sample_result (13 / 2))) 7"
    by (simp add: crossed_def sample_result_def)
  have 4: "ShouldSend (sample_store 24) sample_world (Host (sample_domain 443)) 7"
      "ShouldSend (sample_store 24) readonly_world (Host (sample_domain 443)) 7"
    by (simp_all add: code_defs sample_defs)
  have 5: "allocated (sample_store 24)"
    by (rule sample_store_allocated)
  obtain m2 w2 where 6: "MarkSent sample_lib (sample_store 24) sample_world
      (Host (sample_domain 443)) 7 = Returns (None, m2, w2)"
    by (simp add: code_defs sample_defs)
  obtain m3 where 7: "MarkSent sample_lib (sample_store 24) readonly_world
      (Host (sample_domain 443)) 7 =
        Returns (Some (Wrapped ''failed to write state file'' (Err ''read-only file system'')),
                 m3, readonly_world)"
    by (simp add: code_defs sample_defs)
  have 8: "Host (sample_domain 443) = ''a.com''" "now sample_world = 1000"
      "now readonly_world = 1000" "delivered sample_world = []"
      "domainName_of (sample_domain 443) = ''a.com''"
      "Result_DaysRemaining (sample_result (13 / 2)) = 13 / 2"
      "\<lparr>Domain = sample_domain 443, DaysRemaining = 13 / 2,
        Expiry = Result_Expiry (sample_result (13 / 2)), Threshold = 7\<rparr> = sample_notification"
    by (simp_all add: sample_domain_def sample_world_def readonly_world_def domainName_of_def
        sample_result_def sample_notification_def)
  from no_channels_marks [where cfg = no_channels and T = sample_transports
      and e = "sample_engine []" and r = "sample_result (13 / 2)" and t = 7
      and m = "sample_store 24" and w = sample_world and d = "sample_domain 443"
      and L = sample_lib and c = 0 and n = sample_notification]
    no_channels_marks [where cfg = no_channels and T = sample_transports
      and e = "sample_engine []" and r = "sample_result (13 / 2)" and t = 7
      and m = "sample_store 24" and w = readonly_world and d = "sample_domain 443"
      and L = sample_lib and c = 0 and n = sample_notification]
  show ?thesis
    using 1 2 3 4 5 6 7 8 by auto
qed

text \<open>
  Claim C10 as stated fails when the state cannot be persisted: with no channel, a
  crossed and eligible pair and a file system that refuses every write, the pair is
  marked in the store and the count of notifications sent stays 0.
\<close>

theorem no_channels_not_counted:
  "notifiers (notifier (sample_engine [])) = [] \<and>
   crossed (Result_DaysRemaining (sample_result (13 / 2))) 7 \<and>
   ShouldSend (sample_store 24) readonly_world (Host (sample_domain 443)) 7 \<and>
   snd (threshold_body sample_lib (sample_engine []) (sample_domain 443)
     (sample_result (13 / 2)) 7 (0, sample_store 24, readonly_world)) =
     Returns (0, (sample_store 24)\<lparr>state :=
                  \<lparr>Entries = Some [''a.com'' \<mapsto> Some [30 \<mapsto> 0, 7 \<mapsto> 1000]]\<rparr>\<rparr>,
              readonly_world)"
  by (simp add: crossed_def code_defs sample_defs)

end
